theory Spec2Isabelle
  imports Complex_Main
begin

section \<open>Flight parameters and grid zones\<close>

text \<open>
  The class \<open>DroneParams\<close> of \<open>elevatexy_pynput.py\<close> and \<open>elevatexy_sim_tkinter.py\<close>
  (the same constants in both). Python floats and ints are read as reals: the code only
  copies these constants, negates them and converts the yaw rate to radians.
\<close>

definition STD_GND_SPEED :: real where "STD_GND_SPEED = 3.0"
definition STD_VZ_SPEED :: real where "STD_VZ_SPEED = 0.5"
definition STD_YAW_RATE :: real where "STD_YAW_RATE = 30"

definition ECO_GND_SPEED :: real where "ECO_GND_SPEED = 2.0"
definition ECO_VZ_SPEED :: real where "ECO_VZ_SPEED = 0.35"
definition ECO_YAW_RATE :: real where "ECO_YAW_RATE = 20"

definition PERF_GND_SPEED :: real where "PERF_GND_SPEED = 4.5"
definition PERF_VZ_SPEED :: real where "PERF_VZ_SPEED = 0.75"
definition PERF_YAW_RATE :: real where "PERF_YAW_RATE = 45"

text \<open>\<open>np.radians\<close> and \<open>np.degrees\<close>.\<close>

definition radians :: "real \<Rightarrow> real" where
  "radians d = d * pi / 180"

definition degrees :: "real \<Rightarrow> real" where
  "degrees r = r * 180 / pi"

text \<open>The class \<open>GridZone\<close>: nine integer constants 0..8, here nine constructors.\<close>

datatype GridZone =
    TOP_LEFT | TOP_CENTER | TOP_RIGHT
  | CENTER_LEFT | CENTER | CENTER_RIGHT
  | BOTTOM_LEFT | BOTTOM_CENTER | BOTTOM_RIGHT

type_synonym rect = "int \<times> int \<times> int \<times> int"
type_synonym velocity = "real \<times> real \<times> real \<times> real"
type_synonym face = "int \<times> int \<times> int \<times> int"

text \<open>
  \<open>setup_grid_zones\<close>: the dictionary \<open>self.zones\<close>, in insertion order (the order in
  which \<open>get_face_zone\<close> walks it). Python's \<open>//\<close> on ints is floor division, as
  \<open>div\<close> on \<open>int\<close>.
\<close>

definition grid_zones :: "int \<Rightarrow> int \<Rightarrow> (GridZone \<times> rect) list" where
  "grid_zones frame_w frame_h =
     (let col_width = frame_w div 3; row_height = frame_h div 3 in
      [(TOP_LEFT, (0, 0, col_width, row_height)),
       (TOP_CENTER, (col_width, 0, col_width * 2, row_height)),
       (TOP_RIGHT, (col_width * 2, 0, frame_w, row_height)),
       (CENTER_LEFT, (0, row_height, col_width, row_height * 2)),
       (CENTER, (col_width, row_height, col_width * 2, row_height * 2)),
       (CENTER_RIGHT, (col_width * 2, row_height, frame_w, row_height * 2)),
       (BOTTOM_LEFT, (0, row_height * 2, col_width, frame_h)),
       (BOTTOM_CENTER, (col_width, row_height * 2, col_width * 2, frame_h)),
       (BOTTOM_RIGHT, (col_width * 2, row_height * 2, frame_w, frame_h))])"

text \<open>The test \<open>x1 <= x < x2 and y1 <= y < y2\<close> of \<open>get_face_zone\<close>.\<close>

fun inside :: "rect \<Rightarrow> int \<Rightarrow> int \<Rightarrow> bool" where
  "inside (x1, y1, x2, y2) x y = (x1 \<le> x \<and> x < x2 \<and> y1 \<le> y \<and> y < y2)"

text \<open>
  The loop of \<open>get_face_zone\<close>: the first zone whose rectangle holds the point, and
  \<open>GridZone.CENTER\<close> when the loop ends without a match.
\<close>

fun get_face_zone_loop :: "(GridZone \<times> rect) list \<Rightarrow> int \<Rightarrow> int \<Rightarrow> GridZone" where
  "get_face_zone_loop [] x y = CENTER"
| "get_face_zone_loop ((zone, r) # rest) x y =
     (if inside r x y then zone else get_face_zone_loop rest x y)"

section \<open>The vehicle link and the shared state\<close>

text \<open>
  The dronekit \<open>Vehicle\<close> object as far as the code reads and writes it: the telemetry
  flag \<open>armed\<close>, the mode name, the target of a \<open>simple_takeoff\<close> call, and whether
  \<open>close()\<close> was called.
\<close>

record Vehicle =
  armed :: bool
  mode :: string
  takeoff_target :: "real option"
  link_closed :: bool

text \<open>
  The attributes that \<open>ElevateXYPynput\<close> and \<open>ElevateXYSimulation\<close>
  (\<open>elevatexy_sim_tkinter.py\<close>) have in common. \<open>vehicle\<close> is \<open>None\<close> until
  \<open>connect_drone\<close>. Two fields the source does not have record what leaves the process:
  \<open>sent\<close> lists the arguments of every velocity message the command loop hands to
  \<open>send_mavlink\<close>, oldest first, and \<open>command_errors\<close> counts the caught exceptions of
  the loop. \<open>streamer_alive\<close> says that the thread \<open>command_thread\<close> has not left its
  loop. Camera handles, windows and widgets are left out.
\<close>

record core =
  vehicle :: "Vehicle option"
  camera_active :: bool
  frame_width :: int
  frame_height :: int
  face_cascade :: bool
  face_detected :: bool
  face_zone :: GridZone
  face_center :: "(int \<times> int) option"
  autonomous_enabled :: bool
  flight_mode :: string
  move_speed :: real
  vertical_speed :: real
  yaw_rate :: real
  command_active :: bool
  streamer_alive :: bool
  current_vx :: real
  current_vy :: real
  current_vz :: real
  current_yaw :: real
  zones :: "(GridZone \<times> rect) list"
  sent :: "velocity list"
  command_errors :: nat

text \<open>The test \<open>self.vehicle and self.vehicle.armed\<close>.\<close>

definition is_armed :: "'a core_scheme \<Rightarrow> bool" where
  "is_armed s = (case vehicle s of None \<Rightarrow> False | Some v \<Rightarrow> armed v)"

text \<open>The four fields of the shared command, as one tuple.\<close>

definition velocity_of :: "'a core_scheme \<Rightarrow> velocity" where
  "velocity_of s = (current_vx s, current_vy s, current_vz s, current_yaw s)"

definition update_speeds :: "'a core_scheme \<Rightarrow> 'a core_scheme" where
  "update_speeds s =
     (if flight_mode s = ''eco'' then
        s\<lparr>move_speed := ECO_GND_SPEED, vertical_speed := ECO_VZ_SPEED, yaw_rate := ECO_YAW_RATE\<rparr>
      else if flight_mode s = ''performance'' then
        s\<lparr>move_speed := PERF_GND_SPEED, vertical_speed := PERF_VZ_SPEED, yaw_rate := PERF_YAW_RATE\<rparr>
      else
        s\<lparr>move_speed := STD_GND_SPEED, vertical_speed := STD_VZ_SPEED, yaw_rate := STD_YAW_RATE\<rparr>)"

definition setup_grid_zones :: "'a core_scheme \<Rightarrow> 'a core_scheme" where
  "setup_grid_zones s = s\<lparr>zones := grid_zones (frame_width s) (frame_height s)\<rparr>"

definition get_face_zone :: "'a core_scheme \<Rightarrow> int \<Rightarrow> int \<Rightarrow> GridZone" where
  "get_face_zone s x y = get_face_zone_loop (zones s) x y"

definition set_velocity :: "real \<Rightarrow> real \<Rightarrow> real \<Rightarrow> real \<Rightarrow> 'a core_scheme \<Rightarrow> 'a core_scheme" where
  "set_velocity vx vy vz yaw s =
     s\<lparr>current_vx := vx, current_vy := vy, current_vz := vz, current_yaw := yaw\<rparr>"

text \<open>\<open>stop_movement\<close> of \<open>elevatexy_sim_tkinter.py\<close>.\<close>

definition stop_movement :: "'a core_scheme \<Rightarrow> 'a core_scheme" where
  "stop_movement s = set_velocity 0 0 0 0 s"

text \<open>
  \<open>connect_drone\<close> on its successful path: \<open>v\<close> is the vehicle that \<open>connect\<close>
  returned, switched to GUIDED when it is in another mode.
\<close>

definition connect_drone :: "Vehicle \<Rightarrow> 'a core_scheme \<Rightarrow> 'a core_scheme" where
  "connect_drone v s =
     s\<lparr>vehicle := Some (if mode v \<noteq> ''GUIDED'' then v\<lparr>mode := ''GUIDED''\<rparr> else v)\<rparr>"

text \<open>
  \<open>initialize_face_detection\<close> and \<open>start_camera\<close>, given whether a cascade file was
  loaded and whether the capture opened.
\<close>

definition initialize_face_detection :: "bool \<Rightarrow> 'a core_scheme \<Rightarrow> 'a core_scheme" where
  "initialize_face_detection cascade_found s = (if cascade_found then s\<lparr>face_cascade := True\<rparr> else s)"

definition start_camera :: "bool \<Rightarrow> 'a core_scheme \<Rightarrow> 'a core_scheme" where
  "start_camera camera_opened s = (if camera_opened then s\<lparr>camera_active := True\<rparr> else s)"

definition start_command_sender :: "'a core_scheme \<Rightarrow> 'a core_scheme" where
  "start_command_sender s = s\<lparr>command_active := True, streamer_alive := True\<rparr>"

subsection \<open>The command loop\<close>

text \<open>
  The body of the \<open>while\<close> loop of \<open>_command_loop\<close> (the same text in both files). When
  the vehicle is present and armed the message is built from the four current fields and
  handed to \<open>send_mavlink\<close>; \<open>link_raises\<close> says whether \<open>send_mavlink\<close> raised,
  which the loop catches and prints (building the message is taken not to raise).
  Otherwise the body only sleeps.
\<close>

definition command_loop_body :: "bool \<Rightarrow> 'a core_scheme \<Rightarrow> 'a core_scheme" where
  "command_loop_body link_raises s =
     (if is_armed s then
        s\<lparr>sent := sent s @ [(current_vx s, current_vy s, current_vz s, current_yaw s)],
          command_errors := command_errors s + (if link_raises then 1 else 0)\<rparr>
      else s)"

text \<open>
  One pass of the thread through \<open>while self.command_active:\<close>: the test, then the body
  or the end of the thread. A thread that has ended does nothing.
\<close>

definition command_loop_pass :: "bool \<Rightarrow> 'a core_scheme \<Rightarrow> 'a core_scheme" where
  "command_loop_pass link_raises s =
     (if \<not> streamer_alive s then s
      else if command_active s then command_loop_body link_raises s
      else s\<lparr>streamer_alive := False\<rparr>)"

subsection \<open>Face detection and the autonomous mapper\<close>

text \<open>
  \<open>detect_face\<close>, given the list \<open>faces\<close> that \<open>detectMultiScale\<close> returned for the
  frame, as \<open>(x, y, w, h)\<close>. \<open>max(faces, key=...)\<close> keeps the first face of largest
  area. The result is the new state and the rectangle returned.
\<close>

fun area :: "face \<Rightarrow> int" where
  "area (x, y, w, h) = w * h"

fun largest_face :: "face \<Rightarrow> face list \<Rightarrow> face" where
  "largest_face best [] = best"
| "largest_face best (f # fs) = largest_face (if area best < area f then f else best) fs"

definition detect_face :: "face list \<Rightarrow> 'a core_scheme \<Rightarrow> 'a core_scheme \<times> face option" where
  "detect_face faces s =
     (if \<not> face_cascade s then (s, None)
      else case faces of
        [] \<Rightarrow> (s\<lparr>face_detected := False\<rparr>, None)
      | f # fs \<Rightarrow>
          (let largest = largest_face f fs in
           case largest of (x, y, w, h) \<Rightarrow>
             (let cx = x + w div 2; cy = y + h div 2 in
              (s\<lparr>face_center := Some (cx, cy),
                 face_zone := get_face_zone s cx cy,
                 face_detected := True\<rparr>, Some largest))))"

definition left_column :: "GridZone list" where
  "left_column = [TOP_LEFT, CENTER_LEFT, BOTTOM_LEFT]"

definition right_column :: "GridZone list" where
  "right_column = [TOP_RIGHT, CENTER_RIGHT, BOTTOM_RIGHT]"

definition top_row :: "GridZone list" where
  "top_row = [TOP_LEFT, TOP_CENTER, TOP_RIGHT]"

definition bottom_row :: "GridZone list" where
  "bottom_row = [BOTTOM_LEFT, BOTTOM_CENTER, BOTTOM_RIGHT]"

text \<open>\<open>calculate_autonomous_commands\<close> (the same text in both files).\<close>

definition calculate_autonomous_commands :: "'a core_scheme \<Rightarrow> 'a core_scheme" where
  "calculate_autonomous_commands s =
     (if \<not> face_detected s \<or> face_zone s = CENTER then set_velocity 0 0 0 0 s
      else
        (let vx = 0;
             vy = (if face_zone s \<in> set left_column then - move_speed s
                   else if face_zone s \<in> set right_column then move_speed s
                   else 0);
             vz = (if face_zone s \<in> set top_row then - vertical_speed s
                   else if face_zone s \<in> set bottom_row then vertical_speed s
                   else 0)
         in set_velocity vx vy vz 0 s))"

section \<open>\<open>ElevateXYPynput\<close>: the keyboard listener variant\<close>

text \<open>
  \<open>keys_pressed\<close> is the set of key names currently held; \<open>keyboard_listener\<close> says
  that the pynput listener is running.
\<close>

record pynput = core +
  keys_pressed :: "string set"
  keyboard_listener :: bool

text \<open>\<open>__init__\<close> of \<open>ElevateXYPynput\<close>.\<close>

definition ElevateXYPynput_init :: pynput where
  "ElevateXYPynput_init =
     setup_grid_zones (update_speeds
       \<lparr>vehicle = None, camera_active = False, frame_width = 640, frame_height = 480,
        face_cascade = False, face_detected = False, face_zone = CENTER, face_center = None,
        autonomous_enabled = False, flight_mode = ''standard'',
        move_speed = 0, vertical_speed = 0, yaw_rate = 0,
        command_active = False, streamer_alive = False,
        current_vx = 0, current_vy = 0, current_vz = 0, current_yaw = 0,
        zones = [], sent = [], command_errors = 0,
        keys_pressed = {}, keyboard_listener = False\<rparr>)"

text \<open>\<open>process_manual_keys\<close>: each later \<open>if\<close> overwrites what an earlier one set.\<close>

definition process_manual_keys :: "pynput \<Rightarrow> pynput" where
  "process_manual_keys s =
     (if \<not> is_armed s then s
      else
        (let vx = 0; vy = 0; vz = 0; yaw = 0;
             vx = (if ''w'' \<in> keys_pressed s then move_speed s else vx);
             vx = (if ''s'' \<in> keys_pressed s then - move_speed s else vx);
             vy = (if ''a'' \<in> keys_pressed s then - move_speed s else vy);
             vy = (if ''d'' \<in> keys_pressed s then move_speed s else vy);
             vz = (if ''q'' \<in> keys_pressed s then - vertical_speed s else vz);
             vz = (if ''e'' \<in> keys_pressed s then vertical_speed s else vz);
             yaw = (if ''left'' \<in> keys_pressed s then - radians (yaw_rate s) else yaw);
             yaw = (if ''right'' \<in> keys_pressed s then radians (yaw_rate s) else yaw)
         in set_velocity vx vy vz yaw s))"

text \<open>
  \<open>cleanup\<close> of \<open>ElevateXYPynput\<close>. It stores the zero command and sleeps; it calls
  neither \<open>send_mavlink\<close> nor \<open>join\<close> on the command thread.
\<close>

definition cleanup :: "pynput \<Rightarrow> pynput" where
  "cleanup s =
     (let s = s\<lparr>command_active := False, camera_active := False\<rparr>;
          s = (if keyboard_listener s then s\<lparr>keyboard_listener := False\<rparr> else s)
      in case vehicle s of
           None \<Rightarrow> s
         | Some v \<Rightarrow> (set_velocity 0 0 0 0 s)\<lparr>vehicle := Some (v\<lparr>link_closed := True\<rparr>)\<rparr>)"

text \<open>
  \<open>on_press\<close>, for the key name \<open>k\<close> that its first lines compute
  (\<open>key.char.lower()\<close>, or \<open>str(key)\<close> without the prefix \<open>Key.\<close>). Calls on the
  vehicle are taken not to raise.
\<close>

definition on_press :: "string \<Rightarrow> pynput \<Rightarrow> pynput" where
  "on_press k s0 =
     (let s = s0\<lparr>keys_pressed := insert k (keys_pressed s0)\<rparr> in
      if k = ''space'' then
        (let s = s\<lparr>autonomous_enabled := \<not> autonomous_enabled s\<rparr> in
         if \<not> autonomous_enabled s then set_velocity 0 0 0 0 s else s)
      else if k = ''1'' then update_speeds (s\<lparr>flight_mode := ''eco''\<rparr>)
      else if k = ''2'' then update_speeds (s\<lparr>flight_mode := ''standard''\<rparr>)
      else if k = ''3'' then update_speeds (s\<lparr>flight_mode := ''performance''\<rparr>)
      else if k = ''t'' \<and> vehicle s \<noteq> None then
        (case vehicle s of
           None \<Rightarrow> s
         | Some v \<Rightarrow> if armed v then s\<lparr>vehicle := Some (v\<lparr>takeoff_target := Some 3.0\<rparr>)\<rparr> else s)
      else if k = ''l'' \<and> vehicle s \<noteq> None then
        (case vehicle s of
           None \<Rightarrow> s
         | Some v \<Rightarrow> s\<lparr>vehicle := Some (v\<lparr>mode := ''LAND''\<rparr>), autonomous_enabled := False\<rparr>)
      else if k = ''r'' \<and> vehicle s \<noteq> None then
        (case vehicle s of
           None \<Rightarrow> s
         | Some v \<Rightarrow> s\<lparr>vehicle := Some (v\<lparr>mode := ''RTL''\<rparr>), autonomous_enabled := False\<rparr>)
      else if k = ''esc'' then cleanup s
      else if \<not> autonomous_enabled s then process_manual_keys s
      else s)"

definition on_release :: "string \<Rightarrow> pynput \<Rightarrow> pynput" where
  "on_release k s0 =
     (let s = s0\<lparr>keys_pressed := keys_pressed s0 - {k}\<rparr> in
      if \<not> autonomous_enabled s then process_manual_keys s else s)"

definition start_keyboard_listener :: "pynput \<Rightarrow> pynput" where
  "start_keyboard_listener s = s\<lparr>keyboard_listener := True\<rparr>"

text \<open>
  One turn of the main loop of \<open>run\<close> in which the camera delivered a frame; \<open>faces\<close>
  is what the detector finds in it.
\<close>

definition main_loop_frame :: "face list \<Rightarrow> pynput \<Rightarrow> pynput" where
  "main_loop_frame faces s =
     (if command_active s \<and> camera_active s \<and> autonomous_enabled s
      then calculate_autonomous_commands (fst (detect_face faces s))
      else s)"

text \<open>
  A session is a sequence of events, each run to its end before the next: a key event
  from the listener (delivered only while the listener runs), one pass of the command
  thread through its loop (with whether the link raised), a camera frame in the main
  loop, or the autopilot reporting a new armed state.
\<close>

datatype event =
    Press string
  | Release string
  | StreamerPass bool
  | CameraFrame "face list"
  | Telemetry bool

fun step :: "event \<Rightarrow> pynput \<Rightarrow> pynput" where
  "step (Press k) s = (if keyboard_listener s then on_press k s else s)"
| "step (Release k) s = (if keyboard_listener s then on_release k s else s)"
| "step (StreamerPass link_raises) s = command_loop_pass link_raises s"
| "step (CameraFrame faces) s = main_loop_frame faces s"
| "step (Telemetry a) s = s\<lparr>vehicle := map_option (\<lambda>v. v\<lparr>armed := a\<rparr>) (vehicle s)\<rparr>"

fun run_events :: "event list \<Rightarrow> pynput \<Rightarrow> pynput" where
  "run_events [] s = s"
| "run_events (e # es) s = run_events es (step e s)"

text \<open>
  The state in which \<open>run\<close> enters its main loop: connected to the vehicle \<open>v\<close>, face
  detection and camera set up, the command thread and the listener started.
\<close>

definition session_start :: "Vehicle \<Rightarrow> bool \<Rightarrow> bool \<Rightarrow> pynput" where
  "session_start v cascade_found camera_opened =
     start_keyboard_listener (start_command_sender
       (start_camera camera_opened
         (initialize_face_detection cascade_found (connect_drone v ElevateXYPynput_init))))"

section \<open>\<open>ElevateXYSimulation\<close> of \<open>elevatexy_sim_tkinter.py\<close>\<close>

text \<open>\<open>keyboard_state\<close> is the dictionary from tkinter key symbols to pressed flags.\<close>

record tk = core +
  keyboard_state :: "string \<rightharpoonup> bool"

text \<open>\<open>self.keyboard_state.get(key, False)\<close>.\<close>

definition key_down :: "tk \<Rightarrow> string \<Rightarrow> bool" where
  "key_down s key = (case keyboard_state s key of None \<Rightarrow> False | Some b \<Rightarrow> b)"

definition process_manual_control :: "tk \<Rightarrow> tk" where
  "process_manual_control s =
     (if \<not> is_armed s then s
      else
        (let vx = 0; vy = 0; vz = 0; yaw = 0;
             vx = (if key_down s ''w'' then move_speed s else vx);
             vx = (if key_down s ''s'' then - move_speed s else vx);
             vy = (if key_down s ''a'' then - move_speed s else vy);
             vy = (if key_down s ''d'' then move_speed s else vy);
             vz = (if key_down s ''q'' then - vertical_speed s else vz);
             vz = (if key_down s ''e'' then vertical_speed s else vz);
             yaw = (if key_down s ''Left'' then - radians (yaw_rate s) else yaw);
             yaw = (if key_down s ''Right'' then radians (yaw_rate s) else yaw)
         in set_velocity vx vy vz yaw s))"

text \<open>\<open>__init__\<close> of \<open>ElevateXYSimulation\<close> (\<open>elevatexy_sim_tkinter.py\<close>).\<close>

definition ElevateXYSimulation_tk_init :: tk where
  "ElevateXYSimulation_tk_init =
     setup_grid_zones (update_speeds
       \<lparr>vehicle = None, camera_active = False, frame_width = 640, frame_height = 480,
        face_cascade = False, face_detected = False, face_zone = CENTER,
        face_center = Some (640 div 2, 480 div 2),
        autonomous_enabled = False, flight_mode = ''standard'',
        move_speed = 0, vertical_speed = 0, yaw_rate = 0,
        command_active = False, streamer_alive = False,
        current_vx = 0, current_vy = 0, current_vz = 0, current_yaw = 0,
        zones = [], sent = [], command_errors = 0,
        keyboard_state = Map.empty\<rparr>)"

text \<open>
  The autopilot reporting a new armed state: \<open>vehicle.armed\<close> is telemetry, which the
  program reads and never writes.
\<close>

definition telemetry :: "bool \<Rightarrow> 'a core_scheme \<Rightarrow> 'a core_scheme" where
  "telemetry a s = s\<lparr>vehicle := map_option (\<lambda>v. v\<lparr>armed := a\<rparr>) (vehicle s)\<rparr>"

definition movement_keys :: "string list" where
  "movement_keys = [''w'', ''a'', ''s'', ''d'', ''q'', ''e'', ''Up'', ''Down'', ''Left'', ''Right'']"

text \<open>
  \<open>key_press\<close> and \<open>key_release\<close>, for the key symbol \<open>event.keysym\<close>. Unlike
  \<open>on_press\<close>, \<open>key_press\<close> has no early return: the manual recompute at its end runs
  after every branch.
\<close>

definition key_press :: "string \<Rightarrow> tk \<Rightarrow> tk" where
  "key_press key s0 =
     (let s = s0\<lparr>keyboard_state := (keyboard_state s0)(key \<mapsto> True)\<rparr>;
          s =
            (if key = ''space'' then
               (let s = s\<lparr>autonomous_enabled := \<not> autonomous_enabled s\<rparr> in
                if \<not> autonomous_enabled s then stop_movement s else s)
             else if key = ''1'' then update_speeds (s\<lparr>flight_mode := ''eco''\<rparr>)
             else if key = ''2'' then update_speeds (s\<lparr>flight_mode := ''standard''\<rparr>)
             else if key = ''3'' then update_speeds (s\<lparr>flight_mode := ''performance''\<rparr>)
             else if key = ''t'' \<and> vehicle s \<noteq> None then
               (case vehicle s of
                  None \<Rightarrow> s
                | Some v \<Rightarrow>
                    if armed v then s\<lparr>vehicle := Some (v\<lparr>takeoff_target := Some 3.0\<rparr>)\<rparr> else s)
             else if key = ''l'' \<and> vehicle s \<noteq> None then
               (case vehicle s of
                  None \<Rightarrow> s
                | Some v \<Rightarrow> s\<lparr>vehicle := Some (v\<lparr>mode := ''LAND''\<rparr>), autonomous_enabled := False\<rparr>)
             else if key = ''r'' \<and> vehicle s \<noteq> None then
               (case vehicle s of
                  None \<Rightarrow> s
                | Some v \<Rightarrow> s\<lparr>vehicle := Some (v\<lparr>mode := ''RTL''\<rparr>), autonomous_enabled := False\<rparr>)
             else s)
      in if \<not> autonomous_enabled s then process_manual_control s else s)"

definition key_release :: "string \<Rightarrow> tk \<Rightarrow> tk" where
  "key_release key s0 =
     (let s = (if key \<in> dom (keyboard_state s0)
               then s0\<lparr>keyboard_state := (keyboard_state s0)(key \<mapsto> False)\<rparr> else s0)
      in if \<not> autonomous_enabled s \<and> key \<in> set movement_keys
            \<and> \<not> list_ex (key_down s) movement_keys
         then stop_movement s else s)"

text \<open>\<open>cleanup\<close> of \<open>elevatexy_sim_tkinter.py\<close>.\<close>

definition tk_cleanup :: "tk \<Rightarrow> tk" where
  "tk_cleanup s =
     (let s = s\<lparr>command_active := False, camera_active := False\<rparr>
      in case vehicle s of
           None \<Rightarrow> s
         | Some v \<Rightarrow> (stop_movement s)\<lparr>vehicle := Some (v\<lparr>link_closed := True\<rparr>)\<rparr>)"

section \<open>\<open>elevatexy_simulation.py\<close>: dead zones and the validating profile setter\<close>

text \<open>
  This variant sends each command at once instead of through a command thread. Its
  \<open>DroneParams\<close> has other values, and its yaw constants are in radians per second.
\<close>

definition SIM_STD_GND_SPEED :: real where "SIM_STD_GND_SPEED = 5.0"
definition SIM_STD_VZ_SPEED :: real where "SIM_STD_VZ_SPEED = 0.5"
definition SIM_STD_YAW_RATE :: real where "SIM_STD_YAW_RATE = 0.5"

definition SIM_ECO_GND_SPEED :: real where "SIM_ECO_GND_SPEED = 3.5"
definition SIM_ECO_VZ_SPEED :: real where "SIM_ECO_VZ_SPEED = 0.35"
definition SIM_ECO_YAW_RATE :: real where "SIM_ECO_YAW_RATE = 0.35"

definition SIM_PERF_GND_SPEED :: real where "SIM_PERF_GND_SPEED = 6.0"
definition SIM_PERF_VZ_SPEED :: real where "SIM_PERF_VZ_SPEED = 0.6"
definition SIM_PERF_YAW_RATE :: real where "SIM_PERF_YAW_RATE = 0.6"

text \<open>The class \<open>ManualDroneController\<close>: its profile and the rates derived from it.\<close>

record ManualDroneController =
  mdc_flight_mode :: string
  mdc_move_speed :: real
  mdc_vertical_speed :: real
  mdc_yaw_rate :: real

definition mdc_update_speeds :: "ManualDroneController \<Rightarrow> ManualDroneController" where
  "mdc_update_speeds c =
     (if mdc_flight_mode c = ''eco'' then
        c\<lparr>mdc_move_speed := SIM_ECO_GND_SPEED, mdc_vertical_speed := SIM_ECO_VZ_SPEED,
          mdc_yaw_rate := degrees SIM_ECO_YAW_RATE\<rparr>
      else if mdc_flight_mode c = ''performance'' then
        c\<lparr>mdc_move_speed := SIM_PERF_GND_SPEED, mdc_vertical_speed := SIM_PERF_VZ_SPEED,
          mdc_yaw_rate := degrees SIM_PERF_YAW_RATE\<rparr>
      else
        c\<lparr>mdc_move_speed := SIM_STD_GND_SPEED, mdc_vertical_speed := SIM_STD_VZ_SPEED,
          mdc_yaw_rate := degrees SIM_STD_YAW_RATE\<rparr>)"

text \<open>\<open>__init__\<close> of \<open>ManualDroneController\<close>, for the profile name \<open>m\<close>.\<close>

definition ManualDroneController_init :: "string \<Rightarrow> ManualDroneController" where
  "ManualDroneController_init m =
     mdc_update_speeds
       \<lparr>mdc_flight_mode = m, mdc_move_speed = 0, mdc_vertical_speed = 0, mdc_yaw_rate = 0\<rparr>"

text \<open>\<open>ManualDroneController.set_flight_mode\<close>: no check of the name.\<close>

definition mdc_set_flight_mode :: "string \<Rightarrow> ManualDroneController \<Rightarrow> ManualDroneController" where
  "mdc_set_flight_mode m c = mdc_update_speeds (c\<lparr>mdc_flight_mode := m\<rparr>)"

text \<open>
  The attributes of \<open>ElevateXYSimulation\<close> (\<open>elevatexy_simulation.py\<close>) that profile
  selection and the autonomous mapper use.
\<close>

record sim =
  sim_frame_width :: int
  sim_frame_height :: int
  sim_flight_mode :: string
  sim_move_speed :: real
  sim_vertical_speed :: real
  sim_yaw_rate :: real
  manual_control :: "ManualDroneController option"
  deadzone_horizontal :: int
  deadzone_vertical :: int

definition update_speeds_for_mode :: "sim \<Rightarrow> sim" where
  "update_speeds_for_mode s =
     (let s =
        (if sim_flight_mode s = ''eco'' then
           s\<lparr>sim_move_speed := SIM_ECO_GND_SPEED, sim_vertical_speed := SIM_ECO_VZ_SPEED,
             sim_yaw_rate := degrees SIM_ECO_YAW_RATE\<rparr>
         else if sim_flight_mode s = ''performance'' then
           s\<lparr>sim_move_speed := SIM_PERF_GND_SPEED, sim_vertical_speed := SIM_PERF_VZ_SPEED,
             sim_yaw_rate := degrees SIM_PERF_YAW_RATE\<rparr>
         else
           s\<lparr>sim_move_speed := SIM_STD_GND_SPEED, sim_vertical_speed := SIM_STD_VZ_SPEED,
             sim_yaw_rate := degrees SIM_STD_YAW_RATE\<rparr>)
      in case manual_control s of
           None \<Rightarrow> s
         | Some c \<Rightarrow> s\<lparr>manual_control := Some (mdc_set_flight_mode (sim_flight_mode s) c)\<rparr>)"

text \<open>
  \<open>ElevateXYSimulation.set_flight_mode\<close>: a name outside the three profiles returns at
  once.
\<close>

definition set_flight_mode :: "string \<Rightarrow> sim \<Rightarrow> sim" where
  "set_flight_mode m s =
     (if m \<notin> set [''eco'', ''standard'', ''performance''] then s
      else update_speeds_for_mode (s\<lparr>sim_flight_mode := m\<rparr>))"

text \<open>
  \<open>calculate_drone_commands(zone, face_center)\<close>: each axis is set by the zone's column
  or row and only when the pixel offset from the frame centre is beyond that axis's
  dead zone.
\<close>

definition calculate_drone_commands :: "sim \<Rightarrow> GridZone \<Rightarrow> int \<times> int \<Rightarrow> velocity" where
  "calculate_drone_commands s zone fc =
     (case fc of (face_x, face_y) \<Rightarrow>
        (let center_x = sim_frame_width s div 2;
             center_y = sim_frame_height s div 2;
             offset_x = face_x - center_x;
             offset_y = face_y - center_y;
             vy = (if zone \<in> set left_column then
                     (if \<bar>offset_x\<bar> > deadzone_horizontal s then - sim_move_speed s else 0)
                   else if zone \<in> set right_column then
                     (if \<bar>offset_x\<bar> > deadzone_horizontal s then sim_move_speed s else 0)
                   else 0);
             vz = (if zone \<in> set top_row then
                     (if \<bar>offset_y\<bar> > deadzone_vertical s then - sim_vertical_speed s else 0)
                   else if zone \<in> set bottom_row then
                     (if \<bar>offset_y\<bar> > deadzone_vertical s then sim_vertical_speed s else 0)
                   else 0)
         in (0, vy, vz, 0)))"

text \<open>
  \<open>__init__\<close> of \<open>ElevateXYSimulation\<close> (\<open>elevatexy_simulation.py\<close>), for the fields
  above: a 640 by 480 frame, the standard profile, dead zones of 80 and 60 pixels.
\<close>

definition ElevateXYSimulation_init :: sim where
  "ElevateXYSimulation_init =
     \<lparr>sim_frame_width = 640, sim_frame_height = 480, sim_flight_mode = ''standard'',
      sim_move_speed = SIM_STD_GND_SPEED, sim_vertical_speed = SIM_STD_VZ_SPEED,
      sim_yaw_rate = degrees SIM_STD_YAW_RATE, manual_control = None,
      deadzone_horizontal = 80, deadzone_vertical = 60\<rparr>"

section \<open>Notions used to state the properties\<close>

text \<open>Two vehicles for concrete sessions: in GUIDED mode, armed and not armed.\<close>

definition armed_vehicle :: Vehicle where
  "armed_vehicle = \<lparr>armed = True, mode = ''GUIDED'', takeoff_target = None, link_closed = False\<rparr>"

definition disarmed_vehicle :: Vehicle where
  "disarmed_vehicle = \<lparr>armed = False, mode = ''GUIDED'', takeoff_target = None, link_closed = False\<rparr>"

text \<open>
  The bound of the data model: each component of the shared command within the given
  ground speed, vertical speed and yaw rate (the yaw rate in degrees per second, as the
  profile stores it; the command carries radians per second).
\<close>

definition within_rates :: "real \<Rightarrow> real \<Rightarrow> real \<Rightarrow> 'a core_scheme \<Rightarrow> bool" where
  "within_rates ground vert yawr s =
     (\<bar>current_vx s\<bar> \<le> ground \<and> \<bar>current_vy s\<bar> \<le> ground
      \<and> \<bar>current_vz s\<bar> \<le> vert \<and> \<bar>current_yaw s\<bar> \<le> radians yawr)"

text \<open>
  The invariant of the data model, as the specification words it: the shared command is
  within the rates of the currently active profile.
\<close>

definition bounded_by_active_profile :: "'a core_scheme \<Rightarrow> bool" where
  "bounded_by_active_profile s = within_rates (move_speed s) (vertical_speed s) (yaw_rate s) s"

text \<open>
  The rates stored in the state are those of the profile that \<open>flight_mode\<close> names, as
  \<open>update_speeds\<close> sets them.
\<close>

definition rates_match_profile :: "'a core_scheme \<Rightarrow> bool" where
  "rates_match_profile s =
     ((move_speed s, vertical_speed s, yaw_rate s) =
        (if flight_mode s = ''eco'' then (ECO_GND_SPEED, ECO_VZ_SPEED, ECO_YAW_RATE)
         else if flight_mode s = ''performance'' then (PERF_GND_SPEED, PERF_VZ_SPEED, PERF_YAW_RATE)
         else (STD_GND_SPEED, STD_VZ_SPEED, STD_YAW_RATE)))"

text \<open>
  What every step of a session keeps: the stored rates match the named profile, and the
  shared command is within the rates of the performance profile, the largest of the
  three.
\<close>

definition session_inv :: "'a core_scheme \<Rightarrow> bool" where
  "session_inv s =
     (rates_match_profile s \<and> within_rates PERF_GND_SPEED PERF_VZ_SPEED PERF_YAW_RATE s)"

text \<open>The active profile: its name and the three rates stored with it.\<close>

definition profile_of :: "'a core_scheme \<Rightarrow> string \<times> real \<times> real \<times> real" where
  "profile_of s = (flight_mode s, move_speed s, vertical_speed s, yaw_rate s)"

text \<open>
  The specification's sign conventions, in its words: the horizontal component's sign by
  left or right column membership, the vertical component's by top or bottom row
  membership, no component for the middle column or row.
\<close>

fun column_sign :: "GridZone \<Rightarrow> real" where
  "column_sign TOP_LEFT = -1"
| "column_sign CENTER_LEFT = -1"
| "column_sign BOTTOM_LEFT = -1"
| "column_sign TOP_RIGHT = 1"
| "column_sign CENTER_RIGHT = 1"
| "column_sign BOTTOM_RIGHT = 1"
| "column_sign _ = 0"

fun row_sign :: "GridZone \<Rightarrow> real" where
  "row_sign TOP_LEFT = -1"
| "row_sign TOP_CENTER = -1"
| "row_sign TOP_RIGHT = -1"
| "row_sign BOTTOM_LEFT = 1"
| "row_sign BOTTOM_CENTER = 1"
| "row_sign BOTTOM_RIGHT = 1"
| "row_sign _ = 0"

section \<open>Zone classification\<close>

lemma grid_zones_unfold:
  "grid_zones w h =
      [(TOP_LEFT, (0, 0, w div 3, h div 3)),
       (TOP_CENTER, (w div 3, 0, w div 3 * 2, h div 3)),
       (TOP_RIGHT, (w div 3 * 2, 0, w, h div 3)),
       (CENTER_LEFT, (0, h div 3, w div 3, h div 3 * 2)),
       (CENTER, (w div 3, h div 3, w div 3 * 2, h div 3 * 2)),
       (CENTER_RIGHT, (w div 3 * 2, h div 3, w, h div 3 * 2)),
       (BOTTOM_LEFT, (0, h div 3 * 2, w div 3, h)),
       (BOTTOM_CENTER, (w div 3, h div 3 * 2, w div 3 * 2, h)),
       (BOTTOM_RIGHT, (w div 3 * 2, h div 3 * 2, w, h))]"
  by (simp add: grid_zones_def Let_def)

lemma loop_returns_entry:
  "get_face_zone_loop zs x y = z \<Longrightarrow> z \<noteq> CENTER \<Longrightarrow> \<exists>rc. (z, rc) \<in> set zs \<and> inside rc x y"
proof (induction zs)
  case Nil
  then show ?case by simp
next
  case (Cons e zs)
  obtain z' rc' where e: "e = (z', rc')" by (cases e)
  show ?case
  proof (cases "inside rc' x y")
    case True
    with Cons.prems(1) e have "z' = z" by simp
    with e True show ?thesis by (intro exI[of _ rc']) simp
  next
    case False
    with Cons.prems(1) e have "get_face_zone_loop zs x y = z" by simp
    from Cons.IH[OF this Cons.prems(2)] obtain rc where "(z, rc) \<in> set zs" "inside rc x y"
      by blast
    then show ?thesis by (intro exI[of _ rc]) simp
  qed
qed

lemma grid_keys_distinct: "distinct (map fst (grid_zones w h))"
  by (simp add: grid_zones_unfold)

lemma grid_value_unique:
  "(z, r1) \<in> set (grid_zones w h) \<Longrightarrow> (z, r2) \<in> set (grid_zones w h) \<Longrightarrow> r1 = r2"
  using grid_keys_distinct [of w h] by (rule eq_key_imp_eq_value)

lemma first_match_generic:
  fixes c r w h :: int
  defines "zs \<equiv> [(TOP_LEFT, (0, 0, c, r)),
       (TOP_CENTER, (c, 0, c * 2, r)),
       (TOP_RIGHT, (c * 2, 0, w, r)),
       (CENTER_LEFT, (0, r, c, r * 2)),
       (CENTER, (c, r, c * 2, r * 2)),
       (CENTER_RIGHT, (c * 2, r, w, r * 2)),
       (BOTTOM_LEFT, (0, r * 2, c, h)),
       (BOTTOM_CENTER, (c, r * 2, c * 2, h)),
       (BOTTOM_RIGHT, (c * 2, r * 2, w, h))]"
  assumes mem: "(zone, rc) \<in> set zs" and ins: "inside rc x y"
  shows "get_face_zone_loop zs x y = zone"
proof -
  from mem have "(zone, rc) = (TOP_LEFT, (0, 0, c, r))
    \<or> (zone, rc) = (TOP_CENTER, (c, 0, c * 2, r))
    \<or> (zone, rc) = (TOP_RIGHT, (c * 2, 0, w, r))
    \<or> (zone, rc) = (CENTER_LEFT, (0, r, c, r * 2))
    \<or> (zone, rc) = (CENTER, (c, r, c * 2, r * 2))
    \<or> (zone, rc) = (CENTER_RIGHT, (c * 2, r, w, r * 2))
    \<or> (zone, rc) = (BOTTOM_LEFT, (0, r * 2, c, h))
    \<or> (zone, rc) = (BOTTOM_CENTER, (c, r * 2, c * 2, h))
    \<or> (zone, rc) = (BOTTOM_RIGHT, (c * 2, r * 2, w, h))"
    unfolding zs_def by simp
  then show ?thesis
  proof (elim disjE)
    assume "(zone, rc) = (TOP_LEFT, (0, 0, c, r))"
    with ins show ?thesis unfolding zs_def by simp
  next
    assume "(zone, rc) = (TOP_CENTER, (c, 0, c * 2, r))"
    with ins show ?thesis unfolding zs_def by simp
  next
    assume "(zone, rc) = (TOP_RIGHT, (c * 2, 0, w, r))"
    with ins show ?thesis unfolding zs_def by simp
  next
    assume "(zone, rc) = (CENTER_LEFT, (0, r, c, r * 2))"
    with ins show ?thesis unfolding zs_def by simp
  next
    assume "(zone, rc) = (CENTER, (c, r, c * 2, r * 2))"
    with ins show ?thesis unfolding zs_def by simp
  next
    assume "(zone, rc) = (CENTER_RIGHT, (c * 2, r, w, r * 2))"
    with ins show ?thesis unfolding zs_def by simp
  next
    assume "(zone, rc) = (BOTTOM_LEFT, (0, r * 2, c, h))"
    with ins show ?thesis unfolding zs_def by simp
  next
    assume "(zone, rc) = (BOTTOM_CENTER, (c, r * 2, c * 2, h))"
    with ins show ?thesis unfolding zs_def by simp
  next
    assume "(zone, rc) = (BOTTOM_RIGHT, (c * 2, r * 2, w, h))"
    with ins show ?thesis unfolding zs_def by simp
  qed
qed

text \<open>
  Claim C8. The zone of a point is a function of the point and of the frame's width and
  height alone (through the grid built from them), and every zone is a half-open
  rectangle: a point of a zone's
  rectangle, low edges included and high edges excluded, is classified as that zone, and a
  point classified as a zone other than CENTER lies in that zone's rectangle (CENTER is
  also the answer for a point in no rectangle). In the 640 by 480 frame of the
  constructor, pixel (0, 0) is TOP_LEFT and pixel (320, 240) is CENTER; 212 is the last
  column of the left zones and 213 the first of the middle ones, 159 the last row of the
  top zones and 160 the first of the middle ones.
\<close>

theorem get_face_zone_half_open:
  assumes "(zone, rc) \<in> set (zones (setup_grid_zones s))"
  shows "get_face_zone (setup_grid_zones s) x y
           = get_face_zone_loop (grid_zones (frame_width s) (frame_height s)) x y
       \<and> (inside rc x y \<longrightarrow> get_face_zone (setup_grid_zones s) x y = zone)
       \<and> (zone \<noteq> CENTER \<longrightarrow> get_face_zone (setup_grid_zones s) x y = zone \<longrightarrow> inside rc x y)
       \<and> get_face_zone ElevateXYPynput_init 0 0 = TOP_LEFT
       \<and> get_face_zone ElevateXYPynput_init 320 240 = CENTER
       \<and> get_face_zone ElevateXYPynput_init 212 159 = TOP_LEFT
       \<and> get_face_zone ElevateXYPynput_init 213 159 = TOP_CENTER
       \<and> get_face_zone ElevateXYPynput_init 212 160 = CENTER_LEFT
       \<and> get_face_zone ElevateXYPynput_init 213 160 = CENTER"
proof -
  let ?w = "frame_width s" and ?h = "frame_height s"
  have zs: "zones (setup_grid_zones s) = grid_zones ?w ?h"
    by (simp add: setup_grid_zones_def)
  have mem: "(zone, rc) \<in> set (grid_zones ?w ?h)"
    using assms by (simp add: zs)
  have fwd: "get_face_zone (setup_grid_zones s) x y = zone" if "inside rc x y"
    using mem that unfolding get_face_zone_def zs grid_zones_unfold
    by (rule first_match_generic)
  have bwd: "inside rc x y"
    if "zone \<noteq> CENTER" and "get_face_zone (setup_grid_zones s) x y = zone"
  proof -
    from that obtain rc' where "(zone, rc') \<in> set (grid_zones ?w ?h)" and ins: "inside rc' x y"
      unfolding get_face_zone_def zs using loop_returns_entry by blast
    with mem have "rc' = rc" using grid_value_unique by blast
    with ins show ?thesis by simp
  qed
  have init: "zones ElevateXYPynput_init = grid_zones 640 480"
    by (simp add: ElevateXYPynput_init_def setup_grid_zones_def update_speeds_def)
  have ex: "get_face_zone ElevateXYPynput_init 0 0 = TOP_LEFT"
    "get_face_zone ElevateXYPynput_init 320 240 = CENTER"
    "get_face_zone ElevateXYPynput_init 212 159 = TOP_LEFT"
    "get_face_zone ElevateXYPynput_init 213 159 = TOP_CENTER"
    "get_face_zone ElevateXYPynput_init 212 160 = CENTER_LEFT"
    "get_face_zone ElevateXYPynput_init 213 160 = CENTER"
    by (simp_all add: get_face_zone_def init grid_zones_unfold)
  have pure: "get_face_zone (setup_grid_zones s) x y = get_face_zone_loop (grid_zones ?w ?h) x y"
    by (simp add: get_face_zone_def zs)
  from pure fwd bwd ex show ?thesis by blast
qed

theorem get_face_zone_half_open_witness:
  "get_face_zone (setup_grid_zones ElevateXYPynput_init) 426 159 = TOP_RIGHT
   \<and> \<not> inside (426, 0, 640, 160) 426 160
   \<and> get_face_zone (setup_grid_zones ElevateXYPynput_init) 426 160 \<noteq> TOP_RIGHT"
proof -
  have mem: "(TOP_RIGHT, (426, 0, 640, 160)) \<in> set (zones (setup_grid_zones ElevateXYPynput_init))"
    by (simp add: ElevateXYPynput_init_def setup_grid_zones_def update_speeds_def grid_zones_unfold)
  have "inside (426, 0, 640, 160) 426 159" and out: "\<not> inside (426, 0, 640, 160) 426 160"
    by simp_all
  with get_face_zone_half_open [OF mem, of 426 159] get_face_zone_half_open [OF mem, of 426 160]
  show ?thesis by auto
qed

section \<open>Facts for evaluating concrete sessions\<close>

lemma is_armed_keys [simp]:
  "is_armed (s\<lparr>keys_pressed := ks\<rparr>) = is_armed s"
  by (simp add: is_armed_def)

lemma process_manual_keys_disarmed:
  "\<not> is_armed s \<Longrightarrow> process_manual_keys s = s"
  by (simp add: process_manual_keys_def)

lemma velocity_of_keys [simp]:
  "velocity_of (s\<lparr>keys_pressed := ks\<rparr>) = velocity_of s"
  by (simp add: velocity_of_def)

lemma velocity_of_simps [simp]:
  "velocity_of (s\<lparr>flight_mode := m\<rparr>) = velocity_of s"
  "velocity_of (s\<lparr>vehicle := vo\<rparr>) = velocity_of s"
  "velocity_of (s\<lparr>autonomous_enabled := b\<rparr>) = velocity_of s"
  "velocity_of (update_speeds s) = velocity_of s"
  "velocity_of (set_velocity vx vy vz yaw s) = (vx, vy, vz, yaw)"
  by (simp_all add: velocity_of_def update_speeds_def set_velocity_def)

lemma profile_fields_manual:
  "flight_mode (process_manual_keys s) = flight_mode s"
  "move_speed (process_manual_keys s) = move_speed s"
  "vertical_speed (process_manual_keys s) = vertical_speed s"
  "yaw_rate (process_manual_keys s) = yaw_rate s"
  by (simp_all add: process_manual_keys_def set_velocity_def Let_def)

lemmas eval_defs =
  session_start_def start_keyboard_listener_def start_command_sender_def start_camera_def
  initialize_face_detection_def connect_drone_def ElevateXYPynput_init_def
  setup_grid_zones_def update_speeds_def velocity_of_def set_velocity_def is_armed_def
  on_press_def on_release_def process_manual_keys_def cleanup_def
  command_loop_pass_def command_loop_body_def main_loop_frame_def
  armed_vehicle_def disarmed_vehicle_def Let_def
  STD_GND_SPEED_def STD_VZ_SPEED_def STD_YAW_RATE_def
  ECO_GND_SPEED_def ECO_VZ_SPEED_def ECO_YAW_RATE_def
  PERF_GND_SPEED_def PERF_VZ_SPEED_def PERF_YAW_RATE_def

section \<open>The command loop\<close>

text \<open>
  Claim C3. In a pass of the command loop in which the vehicle is absent or not armed,
  nothing is handed to the link: the list of sent commands is unchanged. In a pass in
  which it is armed, exactly one command is appended, made of the four current fields
  \<open>(vx, vy, vz, yaw_rate)\<close>; this is so whether or not the link raises. While the
  thread is alive and \<open>command_active\<close> holds, a pass is the loop body.
\<close>

theorem command_loop_tick_sends:
  "(\<not> is_armed s \<longrightarrow> sent (command_loop_body link_raises s) = sent s)
   \<and> (is_armed s \<longrightarrow>
        sent (command_loop_body link_raises s)
          = sent s @ [(current_vx s, current_vy s, current_vz s, current_yaw s)])
   \<and> (streamer_alive s \<and> command_active s \<longrightarrow>
        command_loop_pass link_raises s = command_loop_body link_raises s)"
  by (simp add: command_loop_body_def command_loop_pass_def)

theorem command_loop_tick_sends_witness:
  "sent (command_loop_body False (on_press ''w'' (session_start disarmed_vehicle False False))) = []
   \<and> sent (command_loop_body False (on_press ''w'' (session_start armed_vehicle False False)))
       = [(3, 0, 0, 0)]
   \<and> command_loop_pass False (on_press ''w'' (session_start armed_vehicle False False))
       = command_loop_body False (on_press ''w'' (session_start armed_vehicle False False))"
  using command_loop_tick_sends [of "on_press ''w'' (session_start disarmed_vehicle False False)" False]
    command_loop_tick_sends [of "on_press ''w'' (session_start armed_vehicle False False)" False]
  by (simp add: eval_defs)

section \<open>Manual key processing\<close>

lemmas tk_eval_defs =
  key_press_def key_release_def key_down_def process_manual_control_def stop_movement_def
  telemetry_def movement_keys_def ElevateXYSimulation_tk_init_def

lemma process_manual_control_disarmed:
  "\<not> is_armed t \<Longrightarrow> process_manual_control t = t"
  by (simp add: process_manual_control_def)

lemma is_armed_tk_fields:
  "is_armed (t\<lparr>keyboard_state := ks\<rparr>) = is_armed t"
  by (simp add: is_armed_def)

lemma is_armed_core_fields:
  "is_armed (s\<lparr>flight_mode := m\<rparr>) = is_armed s"
  "is_armed (s\<lparr>autonomous_enabled := b\<rparr>) = is_armed s"
  "is_armed (update_speeds s) = is_armed s"
  "is_armed (s\<lparr>vehicle := Some v\<rparr>) = armed v"
  by (simp_all add: is_armed_def update_speeds_def)

lemma velocity_of_keyboard_state:
  "velocity_of (t\<lparr>keyboard_state := ks\<rparr>) = velocity_of t"
  by (simp add: velocity_of_def)

lemma key_press_disarmed:
  assumes "\<not> is_armed t" and "k \<noteq> ''space''"
  shows "velocity_of (key_press k t) = velocity_of t"
proof (cases "vehicle t")
  case None
  with assms show ?thesis
    by (simp add: key_press_def Let_def process_manual_control_disarmed
        is_armed_tk_fields is_armed_core_fields velocity_of_keyboard_state)
next
  case (Some v)
  with assms(1) have "\<not> armed v" by (simp add: is_armed_def)
  with Some assms show ?thesis
    by (simp add: key_press_def Let_def process_manual_control_disarmed
        is_armed_tk_fields is_armed_core_fields velocity_of_keyboard_state)
qed

lemma key_release_velocity:
  "velocity_of (key_release k t) =
     (if \<not> autonomous_enabled t \<and> k \<in> set movement_keys
         \<and> \<not> list_ex (\<lambda>k'. k' \<noteq> k \<and> key_down t k') movement_keys
      then (0, 0, 0, 0) else velocity_of t)"
proof -
  define t' where "t' =
    (if k \<in> dom (keyboard_state t)
     then t\<lparr>keyboard_state := (keyboard_state t)(k \<mapsto> False)\<rparr> else t)"
  have kd: "key_down t' = (\<lambda>k'. k' \<noteq> k \<and> key_down t k')"
    by (rule ext) (auto simp: t'_def key_down_def split: option.splits)
  have same: "autonomous_enabled t' = autonomous_enabled t" "velocity_of t' = velocity_of t"
    by (simp_all add: t'_def velocity_of_keyboard_state)
  have "key_release k t =
      (if \<not> autonomous_enabled t' \<and> k \<in> set movement_keys
          \<and> \<not> list_ex (key_down t') movement_keys
       then stop_movement t' else t')"
    unfolding key_release_def Let_def t'_def by (rule refl)
  then show ?thesis
    by (simp only: kd same stop_movement_def velocity_of_simps if_distrib [of velocity_of]
        split: if_splits)
qed

text \<open>
  Claim C10, as stated, at a key release in the tkinter variant: forward was pressed while
  the vehicle was armed, so the command is \<open>(3, 0, 0, 0)\<close>; the vehicle then reports not
  armed; releasing forward, the last movement key held, makes \<open>key_release\<close> call
  \<open>stop_movement\<close>, and the command becomes \<open>(0, 0, 0, 0)\<close>.
\<close>

theorem key_release_counterexample:
  "\<not> is_armed (telemetry False
        (key_press ''w'' (connect_drone armed_vehicle ElevateXYSimulation_tk_init)))
   \<and> velocity_of (telemetry False
        (key_press ''w'' (connect_drone armed_vehicle ElevateXYSimulation_tk_init))) = (3, 0, 0, 0)
   \<and> velocity_of (key_release ''w'' (telemetry False
        (key_press ''w'' (connect_drone armed_vehicle ElevateXYSimulation_tk_init)))) = (0, 0, 0, 0)
   \<and> velocity_of (key_release ''w'' (telemetry False
        (key_press ''w'' (connect_drone armed_vehicle ElevateXYSimulation_tk_init))))
      \<noteq> velocity_of (telemetry False
        (key_press ''w'' (connect_drone armed_vehicle ElevateXYSimulation_tk_init)))"
  by (simp add: tk_eval_defs eval_defs)

text \<open>
  Claim C10, amended. While the vehicle is absent or not armed, \<open>process_manual_keys\<close>
  and \<open>process_manual_control\<close> return the state as it is, so manual key processing
  leaves all four fields of the shared command unchanged. Of the key events arriving
  then, the command is unchanged by every release and by every press other than the
  mode toggle and escape in \<open>elevatexy_pynput.py\<close>, and by every press other than the
  mode toggle in \<open>elevatexy_sim_tkinter.py\<close>. The other events write zero without
  looking at the armed state: a toggle that enters MANUAL (both variants), escape when a
  vehicle is present (\<open>cleanup\<close>), and in the tkinter variant a release, in MANUAL mode,
  of a movement key when no other movement key is held (\<open>stop_movement\<close>).
\<close>

theorem manual_keys_ignored_while_disarmed:
  assumes "\<not> is_armed s" and "\<not> is_armed t"
  shows "process_manual_keys s = s \<and> process_manual_control t = t
       \<and> velocity_of (on_release k s) = velocity_of s
       \<and> (k \<noteq> ''space'' \<and> k \<noteq> ''esc'' \<longrightarrow> velocity_of (on_press k s) = velocity_of s)
       \<and> (k \<noteq> ''space'' \<longrightarrow> velocity_of (key_press k t) = velocity_of t)
       \<and> velocity_of (key_release k t) =
           (if \<not> autonomous_enabled t \<and> k \<in> set movement_keys
               \<and> \<not> list_ex (\<lambda>k'. k' \<noteq> k \<and> key_down t k') movement_keys
            then (0, 0, 0, 0) else velocity_of t)
       \<and> velocity_of (on_press ''space'' s) =
           (if autonomous_enabled s then (0, 0, 0, 0) else velocity_of s)
       \<and> velocity_of (on_press ''esc'' s) =
           (if vehicle s = None then velocity_of s else (0, 0, 0, 0))
       \<and> velocity_of (key_press ''space'' t) =
           (if autonomous_enabled t then (0, 0, 0, 0) else velocity_of t)"
proof -
  have 1: "process_manual_keys s = s"
    using assms(1) by (rule process_manual_keys_disarmed)
  have 2: "process_manual_control t = t"
    using assms(2) by (rule process_manual_control_disarmed)
  have 3: "velocity_of (on_release k s) = velocity_of s"
    using assms(1) by (simp add: on_release_def Let_def process_manual_keys_disarmed)
  have 4: "velocity_of (on_press k s) = velocity_of s" if "k \<noteq> ''space''" "k \<noteq> ''esc''"
    using assms(1) that
    by (simp add: on_press_def Let_def process_manual_keys_disarmed split: option.splits)
  have 5: "velocity_of (key_press k t) = velocity_of t" if "k \<noteq> ''space''"
    using assms(2) that by (rule key_press_disarmed)
  note 6 = key_release_velocity [of k t]
  have 7: "velocity_of (on_press ''space'' s) =
      (if autonomous_enabled s then (0, 0, 0, 0) else velocity_of s)"
    by (simp add: on_press_def Let_def)
  have 8: "velocity_of (on_press ''esc'' s) =
      (if vehicle s = None then velocity_of s else (0, 0, 0, 0))"
    by (simp add: on_press_def cleanup_def Let_def velocity_of_def set_velocity_def
        split: option.splits)
  have 9: "velocity_of (key_press ''space'' t) =
      (if autonomous_enabled t then (0, 0, 0, 0) else velocity_of t)"
    using assms(2)
    by (simp add: key_press_def Let_def stop_movement_def process_manual_control_disarmed
        is_armed_tk_fields is_armed_core_fields velocity_of_keyboard_state is_armed_def
        set_velocity_def velocity_of_def)
  from 1 2 3 4 5 6 7 8 9 show ?thesis by blast
qed

theorem manual_keys_ignored_while_disarmed_witness:
  "process_manual_keys
      (run_events [Press ''w'', Telemetry False] (session_start armed_vehicle False False))
     = run_events [Press ''w'', Telemetry False] (session_start armed_vehicle False False)
   \<and> velocity_of (on_release ''w''
      (run_events [Press ''w'', Telemetry False] (session_start armed_vehicle False False)))
     = (3, 0, 0, 0)
   \<and> velocity_of (on_press ''a''
      (run_events [Press ''w'', Telemetry False] (session_start armed_vehicle False False)))
     = (3, 0, 0, 0)
   \<and> velocity_of (key_press ''a'' (telemetry False
        (key_press ''w'' (connect_drone armed_vehicle ElevateXYSimulation_tk_init)))) = (3, 0, 0, 0)
   \<and> velocity_of (key_release ''w'' (telemetry False
        (key_press ''w'' (connect_drone armed_vehicle ElevateXYSimulation_tk_init)))) = (0, 0, 0, 0)"
proof -
  let ?s = "run_events [Press ''w'', Telemetry False] (session_start armed_vehicle False False)"
  let ?t = "telemetry False
        (key_press ''w'' (connect_drone armed_vehicle ElevateXYSimulation_tk_init))"
  have a: "\<not> is_armed ?s" and vs: "velocity_of ?s = (3, 0, 0, 0)"
    by (simp_all add: eval_defs)
  have b: "\<not> is_armed ?t" and vt: "velocity_of ?t = (3, 0, 0, 0)"
    and m: "\<not> autonomous_enabled ?t"
    and n: "\<not> list_ex (\<lambda>k'. k' \<noteq> ''w'' \<and> key_down ?t k') movement_keys"
    by (simp_all add: tk_eval_defs eval_defs)
  have k: "''w'' \<in> set movement_keys" "''a'' \<noteq> ''space''" "''a'' \<noteq> ''esc''"
    by (simp_all add: movement_keys_def)
  note fa = manual_keys_ignored_while_disarmed [OF a b, of "''a''"]
  note fw = manual_keys_ignored_while_disarmed [OF a b, of "''w''"]
  from fa have 1: "process_manual_keys ?s = ?s" by (rule conjunct1)
  from fw vs have 2: "velocity_of (on_release ''w'' ?s) = (3, 0, 0, 0)" by simp
  from fa k vs have 3: "velocity_of (on_press ''a'' ?s) = (3, 0, 0, 0)" by simp
  from fa k vt have 4: "velocity_of (key_press ''a'' ?t) = (3, 0, 0, 0)" by simp
  from fw m n k(1) have 5: "velocity_of (key_release ''w'' ?t) = (0, 0, 0, 0)" by simp
  from 1 2 3 4 5 show ?thesis by blast
qed

text \<open>
  Claim C9, as stated, at a vehicle that is not armed: standard profile, ground speed 3,
  exactly the forward key held, and the recompute leaves the command at zero instead of
  publishing \<open>(3, 0, 0, 0)\<close>.
\<close>

theorem forward_key_counterexample:
  "flight_mode (on_press ''w'' (session_start disarmed_vehicle False False)) = ''standard''
   \<and> move_speed (on_press ''w'' (session_start disarmed_vehicle False False)) = 3
   \<and> keys_pressed (on_press ''w'' (session_start disarmed_vehicle False False)) = {''w''}
   \<and> velocity_of (process_manual_keys (on_press ''w'' (session_start disarmed_vehicle False False)))
       \<noteq> (3, 0, 0, 0)"
  by (simp add: eval_defs)

text \<open>
  Claim C9, amended. With the vehicle present and armed, the standard ground speed 3.0
  active and exactly the forward key held, the manual recompute publishes
  \<open>(3.0, 0, 0, 0)\<close>.
\<close>

theorem forward_key_standard_profile:
  assumes "is_armed s" and "move_speed s = STD_GND_SPEED" and "keys_pressed s = {''w''}"
  shows "velocity_of (process_manual_keys s) = (3, 0, 0, 0)"
  using assms by (simp add: process_manual_keys_def Let_def STD_GND_SPEED_def)

theorem forward_key_standard_profile_witness:
  "velocity_of (process_manual_keys (on_press ''w'' (session_start armed_vehicle False False)))
     = (3, 0, 0, 0)"
proof -
  let ?s = "on_press ''w'' (session_start armed_vehicle False False)"
  have "is_armed ?s" "move_speed ?s = STD_GND_SPEED" "keys_pressed ?s = {''w''}"
    by (simp_all add: eval_defs)
  then show ?thesis by (rule forward_key_standard_profile)
qed

text \<open>
  Claim C4, as stated, at an armed vehicle with forward and backward both held: the
  forward axis is \<open>-3\<close>, not zero.
\<close>

theorem opposing_keys_counterexample:
  "{''w'', ''s''} \<subseteq> keys_pressed (run_events [Press ''w'', Press ''s''] (session_start armed_vehicle False False))
   \<and> current_vx (run_events [Press ''w'', Press ''s''] (session_start armed_vehicle False False)) = - 3
   \<and> current_vx (run_events [Press ''w'', Press ''s''] (session_start armed_vehicle False False)) \<noteq> 0"
  by (simp add: eval_defs)

text \<open>
  Claim C4, amended. With the vehicle armed and both keys of an opposing pair held, the
  manual recompute does not cancel them: the key tested later wins. The axis is minus
  the ground speed for forward with backward, plus the ground speed for left with
  right, plus the vertical speed for up with down, and the yaw rate in radians for
  yaw-left with yaw-right; in both variants.
\<close>

theorem opposing_keys_later_wins:
  assumes "is_armed s" and "is_armed t"
  shows "(''w'' \<in> keys_pressed s \<and> ''s'' \<in> keys_pressed s
            \<longrightarrow> current_vx (process_manual_keys s) = - move_speed s)
       \<and> (''a'' \<in> keys_pressed s \<and> ''d'' \<in> keys_pressed s
            \<longrightarrow> current_vy (process_manual_keys s) = move_speed s)
       \<and> (''q'' \<in> keys_pressed s \<and> ''e'' \<in> keys_pressed s
            \<longrightarrow> current_vz (process_manual_keys s) = vertical_speed s)
       \<and> (''left'' \<in> keys_pressed s \<and> ''right'' \<in> keys_pressed s
            \<longrightarrow> current_yaw (process_manual_keys s) = radians (yaw_rate s))
       \<and> (key_down t ''w'' \<and> key_down t ''s''
            \<longrightarrow> current_vx (process_manual_control t) = - move_speed t)
       \<and> (key_down t ''a'' \<and> key_down t ''d''
            \<longrightarrow> current_vy (process_manual_control t) = move_speed t)
       \<and> (key_down t ''q'' \<and> key_down t ''e''
            \<longrightarrow> current_vz (process_manual_control t) = vertical_speed t)
       \<and> (key_down t ''Left'' \<and> key_down t ''Right''
            \<longrightarrow> current_yaw (process_manual_control t) = radians (yaw_rate t))"
  using assms
  by (simp add: process_manual_keys_def process_manual_control_def set_velocity_def Let_def)

theorem opposing_keys_later_wins_witness:
  "current_vx (process_manual_keys
      (run_events [Press ''w'', Press ''s''] (session_start armed_vehicle False False))) = - 3
   \<and> current_vx (process_manual_control
      (key_press ''s'' (key_press ''w'' (connect_drone armed_vehicle ElevateXYSimulation_tk_init)))) = - 3"
proof -
  let ?s = "run_events [Press ''w'', Press ''s''] (session_start armed_vehicle False False)"
  let ?t = "key_press ''s'' (key_press ''w'' (connect_drone armed_vehicle ElevateXYSimulation_tk_init))"
  have a: "is_armed ?s" and ks: "''w'' \<in> keys_pressed ?s" "''s'' \<in> keys_pressed ?s"
    and ms: "move_speed ?s = 3"
    by (simp_all add: eval_defs)
  have b: "is_armed ?t" and kt: "key_down ?t ''w''" "key_down ?t ''s''" and mt: "move_speed ?t = 3"
    by (simp_all add: key_press_def key_down_def process_manual_control_def
        ElevateXYSimulation_tk_init_def stop_movement_def eval_defs)
  from opposing_keys_later_wins [OF a b] ks kt ms mt show ?thesis by simp
qed

section \<open>The mode toggle\<close>

text \<open>
  Claim C2, as stated, at a toggle into AUTONOMOUS: the forward key was pressed in MANUAL
  mode on an armed vehicle, the command is \<open>(3, 0, 0, 0)\<close>, and after the toggle the
  mode is AUTONOMOUS and the command is still \<open>(3, 0, 0, 0)\<close>.
\<close>

theorem toggle_to_autonomous_counterexample:
  "\<not> autonomous_enabled (on_press ''w'' (session_start armed_vehicle False False))
   \<and> autonomous_enabled (on_press ''space'' (on_press ''w'' (session_start armed_vehicle False False)))
   \<and> velocity_of (on_press ''space'' (on_press ''w'' (session_start armed_vehicle False False)))
       = (3, 0, 0, 0)
   \<and> velocity_of (on_press ''space'' (on_press ''w'' (session_start armed_vehicle False False)))
       \<noteq> (0, 0, 0, 0)"
  by (simp add: eval_defs)

text \<open>
  Claim C2, amended. In \<open>on_press\<close> a toggle that enters MANUAL forces the shared
  command to zero within the same call, whatever keys are held and whatever the command
  was. A toggle that enters AUTONOMOUS leaves the command as it was; it becomes zero when
  the autonomous mapper next runs without a detected face, as on the next camera frame
  in which the detector finds nothing. In \<open>key_press\<close> of the tkinter variant a
  toggle into AUTONOMOUS likewise leaves the command as it was, and a toggle into MANUAL
  zeroes it and then runs the manual recompute in the same call.
\<close>

theorem toggle_zeroes_only_into_manual:
  "(autonomous_enabled s \<longrightarrow>
       \<not> autonomous_enabled (on_press ''space'' s)
       \<and> velocity_of (on_press ''space'' s) = (0, 0, 0, 0))
   \<and> (\<not> autonomous_enabled s \<longrightarrow>
       autonomous_enabled (on_press ''space'' s)
       \<and> velocity_of (on_press ''space'' s) = velocity_of s)
   \<and> (\<not> face_detected s \<longrightarrow> velocity_of (calculate_autonomous_commands s) = (0, 0, 0, 0))
   \<and> (command_active s \<and> camera_active s \<and> autonomous_enabled s \<and> face_cascade s \<longrightarrow>
       velocity_of (main_loop_frame [] s) = (0, 0, 0, 0))
   \<and> (\<not> autonomous_enabled t \<longrightarrow>
       autonomous_enabled (key_press ''space'' t)
       \<and> velocity_of (key_press ''space'' t) = velocity_of t)
   \<and> (autonomous_enabled t \<longrightarrow>
       key_press ''space'' t =
         process_manual_control (stop_movement
           (t\<lparr>keyboard_state := (keyboard_state t)(''space'' \<mapsto> True),
              autonomous_enabled := False\<rparr>)))"
  by (simp add: on_press_def main_loop_frame_def detect_face_def key_press_def
      calculate_autonomous_commands_def set_velocity_def stop_movement_def velocity_of_def Let_def)

theorem toggle_zeroes_only_into_manual_witness:
  "velocity_of (on_press ''space'' (on_press ''space'' (on_press ''w'' (session_start armed_vehicle False False))))
     = (0, 0, 0, 0)
   \<and> velocity_of (on_press ''space'' (on_press ''w'' (session_start armed_vehicle False False)))
     = (3, 0, 0, 0)
   \<and> velocity_of (calculate_autonomous_commands
        (on_press ''space'' (on_press ''w'' (session_start armed_vehicle False False))))
     = (0, 0, 0, 0)
   \<and> velocity_of (main_loop_frame []
        (on_press ''space'' (on_press ''w'' (session_start armed_vehicle True True))))
     = (0, 0, 0, 0)"
proof -
  let ?m = "on_press ''w'' (session_start armed_vehicle False False)"
  let ?a = "on_press ''space'' ?m"
  let ?c = "on_press ''space'' (on_press ''w'' (session_start armed_vehicle True True))"
  have m: "\<not> autonomous_enabled ?m" "velocity_of ?m = (3, 0, 0, 0)"
    by (simp_all add: eval_defs)
  have a: "autonomous_enabled ?a" "\<not> face_detected ?a"
    by (simp_all add: eval_defs)
  have c: "command_active ?c \<and> camera_active ?c \<and> autonomous_enabled ?c \<and> face_cascade ?c"
    by (simp add: eval_defs)
  from toggle_zeroes_only_into_manual [of ?m ElevateXYSimulation_tk_init]
    toggle_zeroes_only_into_manual [of ?a ElevateXYSimulation_tk_init]
    toggle_zeroes_only_into_manual [of ?c ElevateXYSimulation_tk_init] m a c
  show ?thesis by simp
qed

section \<open>Bounds on the shared command\<close>

lemma radians_mono: "a \<le> b \<Longrightarrow> radians a \<le> radians b"
  by (simp add: radians_def divide_right_mono mult_right_mono)

lemma radians_nonneg: "0 \<le> a \<Longrightarrow> 0 \<le> radians a"
  by (simp add: radians_def)

lemma rates_bounds:
  assumes "rates_match_profile s"
  shows "0 \<le> move_speed s" "move_speed s \<le> PERF_GND_SPEED"
    "0 \<le> vertical_speed s" "vertical_speed s \<le> PERF_VZ_SPEED"
    "0 \<le> yaw_rate s" "yaw_rate s \<le> PERF_YAW_RATE"
  using assms
  by (auto simp: rates_match_profile_def STD_GND_SPEED_def STD_VZ_SPEED_def STD_YAW_RATE_def
      ECO_GND_SPEED_def ECO_VZ_SPEED_def ECO_YAW_RATE_def
      PERF_GND_SPEED_def PERF_VZ_SPEED_def PERF_YAW_RATE_def split: if_splits)

lemma within_rates_mono:
  "within_rates g v y s \<Longrightarrow> g \<le> g' \<Longrightarrow> v \<le> v' \<Longrightarrow> y \<le> y' \<Longrightarrow> within_rates g' v' y' s"
  using radians_mono [of y y'] by (auto simp: within_rates_def)

lemma within_rates_zero:
  "0 \<le> g \<Longrightarrow> 0 \<le> v \<Longrightarrow> 0 \<le> y \<Longrightarrow> within_rates g v y (set_velocity 0 0 0 0 s)"
  using radians_nonneg [of y] by (simp add: within_rates_def set_velocity_def)

lemma process_manual_keys_within:
  assumes "is_armed s" "0 \<le> move_speed s" "0 \<le> vertical_speed s" "0 \<le> yaw_rate s"
  shows "within_rates (move_speed s) (vertical_speed s) (yaw_rate s) (process_manual_keys s)"
  using assms radians_nonneg [of "yaw_rate s"]
  by (simp add: process_manual_keys_def within_rates_def set_velocity_def Let_def)

lemma calculate_autonomous_within:
  assumes "0 \<le> move_speed s" "0 \<le> vertical_speed s" "0 \<le> yaw_rate s"
  shows "within_rates (move_speed s) (vertical_speed s) (yaw_rate s) (calculate_autonomous_commands s)"
  using assms radians_nonneg [of "yaw_rate s"]
  by (simp add: calculate_autonomous_commands_def within_rates_def set_velocity_def Let_def)

lemma rates_match_profile_cong:
  "move_speed s' = move_speed s \<Longrightarrow> vertical_speed s' = vertical_speed s \<Longrightarrow>
   yaw_rate s' = yaw_rate s \<Longrightarrow> flight_mode s' = flight_mode s \<Longrightarrow>
   rates_match_profile s' = rates_match_profile s"
  by (simp add: rates_match_profile_def)

lemma rates_match_profile_manual [simp]:
  "rates_match_profile (process_manual_keys s) = rates_match_profile s"
  by (rule rates_match_profile_cong)
    (simp_all add: process_manual_keys_def set_velocity_def Let_def)

lemma rates_match_profile_autonomous [simp]:
  "rates_match_profile (calculate_autonomous_commands s) = rates_match_profile s"
  by (rule rates_match_profile_cong)
    (simp_all add: calculate_autonomous_commands_def set_velocity_def Let_def)

lemma session_inv_manual:
  assumes "session_inv s"
  shows "session_inv (process_manual_keys s)"
proof (cases "is_armed s")
  case False
  with assms show ?thesis by (simp add: process_manual_keys_def)
next
  case True
  from assms have r: "rates_match_profile s" by (simp add: session_inv_def)
  have "within_rates (move_speed s) (vertical_speed s) (yaw_rate s) (process_manual_keys s)"
    using True rates_bounds [OF r] by (intro process_manual_keys_within)
  then have "within_rates PERF_GND_SPEED PERF_VZ_SPEED PERF_YAW_RATE (process_manual_keys s)"
    by (rule within_rates_mono) (simp_all add: rates_bounds [OF r])
  moreover have "rates_match_profile (process_manual_keys s)"
    using r by simp
  ultimately show ?thesis by (simp add: session_inv_def)
qed

lemma session_inv_autonomous:
  assumes "session_inv s"
  shows "session_inv (calculate_autonomous_commands s)"
proof -
  from assms have r: "rates_match_profile s" by (simp add: session_inv_def)
  have "within_rates (move_speed s) (vertical_speed s) (yaw_rate s) (calculate_autonomous_commands s)"
    using rates_bounds [OF r] by (intro calculate_autonomous_within)
  then have "within_rates PERF_GND_SPEED PERF_VZ_SPEED PERF_YAW_RATE (calculate_autonomous_commands s)"
    by (rule within_rates_mono) (simp_all add: rates_bounds [OF r])
  moreover have "rates_match_profile (calculate_autonomous_commands s)"
    using r by simp
  ultimately show ?thesis by (simp add: session_inv_def)
qed

lemma session_inv_zero:
  assumes "session_inv s"
  shows "session_inv (set_velocity 0 0 0 0 s)"
proof -
  have "within_rates PERF_GND_SPEED PERF_VZ_SPEED PERF_YAW_RATE (set_velocity 0 0 0 0 s)"
    by (rule within_rates_zero)
      (simp_all add: PERF_GND_SPEED_def PERF_VZ_SPEED_def PERF_YAW_RATE_def)
  with assms show ?thesis
    by (simp add: session_inv_def rates_match_profile_def set_velocity_def)
qed

lemma session_inv_update_speeds:
  assumes "session_inv s"
  shows "session_inv (update_speeds (s\<lparr>flight_mode := m\<rparr>))"
  using assms
  by (simp add: session_inv_def rates_match_profile_def within_rates_def update_speeds_def)

lemma session_inv_listener_fields [simp]:
  "session_inv (s\<lparr>keys_pressed := ks\<rparr>) = session_inv s"
  "session_inv (s\<lparr>keyboard_listener := b\<rparr>) = session_inv s"
  by (simp_all add: session_inv_def rates_match_profile_def within_rates_def)

lemma session_inv_other_fields [simp]:
  "session_inv (s\<lparr>autonomous_enabled := b\<rparr>) = session_inv s"
  "session_inv (s\<lparr>vehicle := vo\<rparr>) = session_inv s"
  "session_inv (s\<lparr>command_active := b\<rparr>) = session_inv s"
  "session_inv (s\<lparr>camera_active := b\<rparr>) = session_inv s"
  "session_inv (s\<lparr>streamer_alive := b\<rparr>) = session_inv s"
  "session_inv (s\<lparr>sent := xs\<rparr>) = session_inv s"
  "session_inv (s\<lparr>command_errors := n\<rparr>) = session_inv s"
  "session_inv (s\<lparr>face_detected := b\<rparr>) = session_inv s"
  "session_inv (s\<lparr>face_zone := z\<rparr>) = session_inv s"
  "session_inv (s\<lparr>face_center := fc\<rparr>) = session_inv s"
  "session_inv (s\<lparr>face_cascade := b\<rparr>) = session_inv s"
  by (simp_all add: session_inv_def rates_match_profile_def within_rates_def)

lemma session_inv_cleanup:
  assumes "session_inv s"
  shows "session_inv (cleanup s)"
  using assms
  by (simp add: cleanup_def Let_def session_inv_zero split: option.splits)

lemma session_inv_on_press:
  assumes "session_inv s"
  shows "session_inv (on_press k s)"
  using assms
  by (simp add: on_press_def Let_def session_inv_zero session_inv_update_speeds
      session_inv_cleanup session_inv_manual split: option.splits)

lemma session_inv_on_release:
  assumes "session_inv s"
  shows "session_inv (on_release k s)"
  using assms by (simp add: on_release_def Let_def session_inv_manual)

lemma session_inv_detect_face:
  assumes "session_inv s"
  shows "session_inv (fst (detect_face faces s))"
  using assms by (simp add: detect_face_def Let_def split: list.splits prod.splits)

lemma session_inv_step:
  assumes "session_inv s"
  shows "session_inv (step e s)"
proof (cases e)
  case (Press k)
  with assms show ?thesis by (simp add: session_inv_on_press)
next
  case (Release k)
  with assms show ?thesis by (simp add: session_inv_on_release)
next
  case (StreamerPass r)
  with assms show ?thesis by (simp add: command_loop_pass_def command_loop_body_def)
next
  case (CameraFrame faces)
  with assms show ?thesis
    by (simp add: main_loop_frame_def session_inv_autonomous session_inv_detect_face)
next
  case (Telemetry a)
  with assms show ?thesis by simp
qed

lemma session_inv_run:
  "session_inv s \<Longrightarrow> session_inv (run_events es s)"
  by (induction es arbitrary: s) (simp_all add: session_inv_step)

lemma session_inv_start: "session_inv (session_start v c cam)"
  by (simp add: session_inv_def rates_match_profile_def within_rates_def radians_def
      session_start_def start_keyboard_listener_def start_command_sender_def start_camera_def
      initialize_face_detection_def connect_drone_def ElevateXYPynput_init_def
      setup_grid_zones_def update_speeds_def PERF_GND_SPEED_def PERF_VZ_SPEED_def PERF_YAW_RATE_def)

lemma manual_recompute_bounded:
  assumes "rates_match_profile s" and "is_armed s"
  shows "bounded_by_active_profile (process_manual_keys s)"
  using process_manual_keys_within [OF assms(2)] rates_bounds [OF assms(1)]
  by (simp add: bounded_by_active_profile_def profile_fields_manual)

lemma autonomous_recompute_bounded:
  assumes "rates_match_profile s"
  shows "bounded_by_active_profile (calculate_autonomous_commands s)"
proof -
  have "move_speed (calculate_autonomous_commands s) = move_speed s"
    "vertical_speed (calculate_autonomous_commands s) = vertical_speed s"
    "yaw_rate (calculate_autonomous_commands s) = yaw_rate s"
    by (simp_all add: calculate_autonomous_commands_def set_velocity_def Let_def)
  with calculate_autonomous_within [of s] rates_bounds [OF assms]
  show ?thesis by (simp add: bounded_by_active_profile_def)
qed

lemma rates_match_profile_keys [simp]:
  "rates_match_profile (s\<lparr>keys_pressed := ks\<rparr>) = rates_match_profile s"
  by (simp add: rates_match_profile_def)

lemma rates_match_profile_detect_face [simp]:
  "rates_match_profile (fst (detect_face faces s)) = rates_match_profile s"
  by (rule rates_match_profile_cong)
    (simp_all add: detect_face_def Let_def split: list.splits prod.splits)

text \<open>
  Claim C5, as stated, at a profile change: performance is selected, forward is pressed on
  an armed vehicle, then eco is selected. The active profile is eco with ground speed 2,
  and the published forward component is still 4.5.
\<close>

theorem profile_change_counterexample:
  "flight_mode (run_events [Press ''3'', Press ''w'', Press ''1''] (session_start armed_vehicle False False))
     = ''eco''
   \<and> move_speed (run_events [Press ''3'', Press ''w'', Press ''1''] (session_start armed_vehicle False False))
     = 2
   \<and> current_vx (run_events [Press ''3'', Press ''w'', Press ''1''] (session_start armed_vehicle False False))
     = 4.5
   \<and> \<not> \<bar>current_vx (run_events [Press ''3'', Press ''w'', Press ''1''] (session_start armed_vehicle False False))\<bar>
       \<le> move_speed (run_events [Press ''3'', Press ''w'', Press ''1''] (session_start armed_vehicle False False))
   \<and> \<not> bounded_by_active_profile
       (run_events [Press ''3'', Press ''w'', Press ''1''] (session_start armed_vehicle False False))"
  by (simp add: bounded_by_active_profile_def within_rates_def eval_defs)

text \<open>
  Claim C5, amended. Over every sequence of key presses, key releases, profile changes,
  command-loop passes, camera frames and arming changes of a session, each component of
  the shared command stays within the rates of the performance profile, the largest of
  the three. Every event that recomputes the command leaves it within the rates of the
  currently active profile: in MANUAL mode on an armed vehicle a release of any key and a
  press of any key that reaches the manual recompute, and in AUTONOMOUS mode a processed
  camera frame. A profile change alone does not recompute the command.
\<close>

theorem velocity_bounded_at_recompute:
  "within_rates PERF_GND_SPEED PERF_VZ_SPEED PERF_YAW_RATE (run_events es (session_start v c cam))
   \<and> (is_armed (run_events es (session_start v c cam))
        \<and> \<not> autonomous_enabled (run_events es (session_start v c cam)) \<longrightarrow>
      bounded_by_active_profile (on_release k (run_events es (session_start v c cam))))
   \<and> (is_armed (run_events es (session_start v c cam))
        \<and> \<not> autonomous_enabled (run_events es (session_start v c cam))
        \<and> k \<notin> set [''space'', ''1'', ''2'', ''3'', ''t'', ''l'', ''r'', ''esc''] \<longrightarrow>
      bounded_by_active_profile (on_press k (run_events es (session_start v c cam))))
   \<and> (command_active (run_events es (session_start v c cam))
        \<and> camera_active (run_events es (session_start v c cam))
        \<and> autonomous_enabled (run_events es (session_start v c cam)) \<longrightarrow>
      bounded_by_active_profile (main_loop_frame faces (run_events es (session_start v c cam))))"
proof -
  let ?r = "run_events es (session_start v c cam)"
  have inv: "session_inv ?r"
    by (rule session_inv_run) (rule session_inv_start)
  then have r: "rates_match_profile ?r"
    and p: "within_rates PERF_GND_SPEED PERF_VZ_SPEED PERF_YAW_RATE ?r"
    by (simp_all add: session_inv_def)
  have rel: "bounded_by_active_profile (on_release k ?r)"
    if "is_armed ?r" "\<not> autonomous_enabled ?r"
    using that r by (simp add: on_release_def Let_def manual_recompute_bounded)
  have pre: "bounded_by_active_profile (on_press k ?r)"
    if "is_armed ?r" "\<not> autonomous_enabled ?r"
      "k \<notin> set [''space'', ''1'', ''2'', ''3'', ''t'', ''l'', ''r'', ''esc'']"
    using that r by (simp add: on_press_def Let_def manual_recompute_bounded)
  have fr: "bounded_by_active_profile (main_loop_frame faces ?r)"
    if "command_active ?r" "camera_active ?r" "autonomous_enabled ?r"
    using that r by (simp add: main_loop_frame_def autonomous_recompute_bounded)
  from p rel pre fr show ?thesis by blast
qed

theorem velocity_bounded_at_recompute_witness:
  "within_rates PERF_GND_SPEED PERF_VZ_SPEED PERF_YAW_RATE
     (run_events [Press ''3'', Press ''w'', Press ''1''] (session_start armed_vehicle False False))
   \<and> \<not> bounded_by_active_profile
     (run_events [Press ''3'', Press ''w'', Press ''1''] (session_start armed_vehicle False False))
   \<and> bounded_by_active_profile
     (on_press ''d''
       (run_events [Press ''3'', Press ''w'', Press ''1''] (session_start armed_vehicle False False)))"
proof -
  let ?r = "run_events [Press ''3'', Press ''w'', Press ''1''] (session_start armed_vehicle False False)"
  have a: "is_armed ?r" "\<not> autonomous_enabled ?r"
    by (simp_all add: eval_defs)
  have k: "''d'' \<notin> set [''space'', ''1'', ''2'', ''3'', ''t'', ''l'', ''r'', ''esc'']"
    by simp
  have n: "\<not> bounded_by_active_profile ?r"
    by (simp add: bounded_by_active_profile_def within_rates_def eval_defs)
  note bound =
    velocity_bounded_at_recompute
      [of "[Press ''3'', Press ''w'', Press ''1'']" armed_vehicle False False "''d''" "[]"]
  from bound have 1: "within_rates PERF_GND_SPEED PERF_VZ_SPEED PERF_YAW_RATE ?r"
    by (rule conjunct1)
  from bound a k have 2: "bounded_by_active_profile (on_press ''d'' ?r)"
    by blast
  from 1 n 2 show ?thesis by blast
qed

section \<open>Profile selection\<close>

text \<open>
  Claim C7, as stated, at the name \<open>turbo\<close>: the performance profile is active with
  ground speed 4.5; storing the unknown name and calling \<open>update_speeds\<close>, as the key
  handlers do for the three known names, is not rejected and leaves ground speed 3, the
  standard rate, instead of the prior 4.5. Likewise
  \<open>ManualDroneController.set_flight_mode\<close> of \<open>elevatexy_simulation.py\<close> accepts the
  name and replaces the performance ground speed 6 by the standard 5.
\<close>

theorem unknown_profile_counterexample:
  "flight_mode (on_press ''3'' (session_start armed_vehicle False False)) = ''performance''
   \<and> move_speed (on_press ''3'' (session_start armed_vehicle False False)) = 4.5
   \<and> move_speed (update_speeds
        ((on_press ''3'' (session_start armed_vehicle False False))\<lparr>flight_mode := ''turbo''\<rparr>)) = 3
   \<and> move_speed (update_speeds
        ((on_press ''3'' (session_start armed_vehicle False False))\<lparr>flight_mode := ''turbo''\<rparr>))
       \<noteq> move_speed (on_press ''3'' (session_start armed_vehicle False False))
   \<and> mdc_move_speed (ManualDroneController_init ''performance'') = 6
   \<and> mdc_move_speed (mdc_set_flight_mode ''turbo'' (ManualDroneController_init ''performance'')) = 5"
  by (simp add: eval_defs ManualDroneController_init_def mdc_set_flight_mode_def
      mdc_update_speeds_def SIM_PERF_GND_SPEED_def SIM_STD_GND_SPEED_def)

lemma profile_fields_manual_control:
  "flight_mode (process_manual_control t) = flight_mode t"
  "move_speed (process_manual_control t) = move_speed t"
  "vertical_speed (process_manual_control t) = vertical_speed t"
  "yaw_rate (process_manual_control t) = yaw_rate t"
  by (simp_all add: process_manual_control_def set_velocity_def Let_def)

lemma profile_fields_cleanup:
  "flight_mode (cleanup s) = flight_mode s"
  "move_speed (cleanup s) = move_speed s"
  "vertical_speed (cleanup s) = vertical_speed s"
  "yaw_rate (cleanup s) = yaw_rate s"
  by (simp_all add: cleanup_def set_velocity_def Let_def split: option.splits)

text \<open>
  Claim C7, amended. In \<open>elevatexy_pynput.py\<close> and \<open>elevatexy_sim_tkinter.py\<close> a
  profile name other than eco and performance is not rejected: \<open>update_speeds\<close> keeps
  the name and selects the standard rates, whatever profile was active before. The key
  handlers of both variants can only store the three known names: a press of a key other
  than 1, 2 and 3, and every release, leaves the name and the three rates unchanged. Only
  \<open>ElevateXYSimulation.set_flight_mode\<close> of \<open>elevatexy_simulation.py\<close> rejects an
  unknown name and returns the state unchanged; \<open>ManualDroneController.set_flight_mode\<close>
  of the same file takes any name and falls back to the standard rates as
  \<open>update_speeds\<close> does.
\<close>

theorem unknown_profile_selects_standard:
  "(m \<noteq> ''eco'' \<and> m \<noteq> ''performance'' \<longrightarrow>
      profile_of (update_speeds (s\<lparr>flight_mode := m\<rparr>))
        = (m, STD_GND_SPEED, STD_VZ_SPEED, STD_YAW_RATE))
   \<and> (k \<noteq> ''1'' \<and> k \<noteq> ''2'' \<and> k \<noteq> ''3'' \<longrightarrow> profile_of (on_press k p) = profile_of p)
   \<and> profile_of (on_release k p) = profile_of p
   \<and> (k \<noteq> ''1'' \<and> k \<noteq> ''2'' \<and> k \<noteq> ''3'' \<longrightarrow> profile_of (key_press k t) = profile_of t)
   \<and> profile_of (key_release k t) = profile_of t
   \<and> (m \<noteq> ''eco'' \<and> m \<noteq> ''standard'' \<and> m \<noteq> ''performance'' \<longrightarrow> set_flight_mode m q = q)
   \<and> (m \<noteq> ''eco'' \<and> m \<noteq> ''performance'' \<longrightarrow>
        mdc_set_flight_mode m c =
          \<lparr>mdc_flight_mode = m, mdc_move_speed = SIM_STD_GND_SPEED,
           mdc_vertical_speed = SIM_STD_VZ_SPEED, mdc_yaw_rate = degrees SIM_STD_YAW_RATE\<rparr>)"
proof -
  have 1: "profile_of (update_speeds (s\<lparr>flight_mode := m\<rparr>))
        = (m, STD_GND_SPEED, STD_VZ_SPEED, STD_YAW_RATE)"
    if "m \<noteq> ''eco''" "m \<noteq> ''performance''"
    using that by (simp add: profile_of_def update_speeds_def)
  have 2: "profile_of (on_press k p) = profile_of p" if "k \<noteq> ''1''" "k \<noteq> ''2''" "k \<noteq> ''3''"
    using that
    by (simp add: profile_of_def on_press_def Let_def set_velocity_def profile_fields_manual
        profile_fields_cleanup split: option.splits)
  have 3: "profile_of (on_release k p) = profile_of p"
    by (simp add: profile_of_def on_release_def Let_def profile_fields_manual)
  have 4: "set_flight_mode m q = q" if "m \<noteq> ''eco''" "m \<noteq> ''standard''" "m \<noteq> ''performance''"
    using that by (simp add: set_flight_mode_def)
  have 5: "profile_of (key_press k t) = profile_of t" if "k \<noteq> ''1''" "k \<noteq> ''2''" "k \<noteq> ''3''"
    using that
    by (simp add: profile_of_def key_press_def Let_def set_velocity_def stop_movement_def
        profile_fields_manual_control split: option.splits)
  have 6: "profile_of (key_release k t) = profile_of t"
    by (simp add: profile_of_def key_release_def Let_def set_velocity_def stop_movement_def)
  have 7: "mdc_set_flight_mode m c =
          \<lparr>mdc_flight_mode = m, mdc_move_speed = SIM_STD_GND_SPEED,
           mdc_vertical_speed = SIM_STD_VZ_SPEED, mdc_yaw_rate = degrees SIM_STD_YAW_RATE\<rparr>"
    if "m \<noteq> ''eco''" "m \<noteq> ''performance''"
    using that by (simp add: mdc_set_flight_mode_def mdc_update_speeds_def)
  from 1 2 3 4 5 6 7 show ?thesis by blast
qed

theorem unknown_profile_selects_standard_witness:
  "profile_of (update_speeds
      ((on_press ''3'' (session_start armed_vehicle False False))\<lparr>flight_mode := ''turbo''\<rparr>))
     = (''turbo'', 3, 0.5, 30)
   \<and> profile_of (on_press ''4'' (on_press ''3'' (session_start armed_vehicle False False)))
     = (''performance'', 4.5, 0.75, 45)
   \<and> set_flight_mode ''turbo'' ElevateXYSimulation_init = ElevateXYSimulation_init"
proof -
  let ?p = "on_press ''3'' (session_start armed_vehicle False False)"
  have p: "profile_of ?p = (''performance'', 4.5, 0.75, 45)"
    by (simp add: profile_of_def eval_defs)
  note fact = unknown_profile_selects_standard
    [of "''turbo''" ?p "''4''" ?p ElevateXYSimulation_tk_init ElevateXYSimulation_init
      "ManualDroneController_init ''performance''"]
  from fact have 1: "profile_of (update_speeds (?p\<lparr>flight_mode := ''turbo''\<rparr>))
      = (''turbo'', STD_GND_SPEED, STD_VZ_SPEED, STD_YAW_RATE)"
    by simp
  from fact have 2: "profile_of (on_press ''4'' ?p) = profile_of ?p"
    by simp
  from fact have 3: "set_flight_mode ''turbo'' ElevateXYSimulation_init = ElevateXYSimulation_init"
    by simp
  from 1 2 3 p show ?thesis
    by (simp only: STD_GND_SPEED_def STD_VZ_SPEED_def STD_YAW_RATE_def) simp
qed

section \<open>The autonomous mapper\<close>

lemma column_sign_cases:
  "column_sign z = (if z \<in> set left_column then -1 else if z \<in> set right_column then 1 else 0)"
  by (cases z) (simp_all add: left_column_def right_column_def)

lemma row_sign_cases:
  "row_sign z = (if z \<in> set top_row then -1 else if z \<in> set bottom_row then 1 else 0)"
  by (cases z) (simp_all add: top_row_def bottom_row_def)

lemma calculate_drone_commands_signs:
  "calculate_drone_commands q zone (face_x, face_y) =
     (0,
      (if \<bar>face_x - sim_frame_width q div 2\<bar> > deadzone_horizontal q
       then column_sign zone * sim_move_speed q else 0),
      (if \<bar>face_y - sim_frame_height q div 2\<bar> > deadzone_vertical q
       then row_sign zone * sim_vertical_speed q else 0),
      0)"
  by (simp add: calculate_drone_commands_def Let_def column_sign_cases row_sign_cases)

lemma calculate_autonomous_signs:
  assumes "face_detected s" and "face_zone s \<noteq> CENTER"
  shows "velocity_of (calculate_autonomous_commands s) =
     (0, column_sign (face_zone s) * move_speed s, row_sign (face_zone s) * vertical_speed s, 0)"
  using assms
  by (simp add: calculate_autonomous_commands_def Let_def column_sign_cases row_sign_cases)

lemma default_grid_offsets:
  assumes "get_face_zone_loop (grid_zones 640 480) x y = z"
  shows "(column_sign z \<noteq> 0 \<longrightarrow> \<bar>x - 640 div 2\<bar> > 105)
       \<and> (row_sign z \<noteq> 0 \<longrightarrow> \<bar>y - 480 div 2\<bar> > 79)"
proof (cases "z = CENTER")
  case True
  then show ?thesis by simp
next
  case False
  with assms obtain rc where mem: "(z, rc) \<in> set (grid_zones 640 480)" and ins: "inside rc x y"
    using loop_returns_entry by blast
  from mem have "(z, rc) = (TOP_LEFT, (0, 0, 213, 160))
       \<or> (z, rc) = (TOP_CENTER, (213, 0, 426, 160))
       \<or> (z, rc) = (TOP_RIGHT, (426, 0, 640, 160))
       \<or> (z, rc) = (CENTER_LEFT, (0, 160, 213, 320))
       \<or> (z, rc) = (CENTER, (213, 160, 426, 320))
       \<or> (z, rc) = (CENTER_RIGHT, (426, 160, 640, 320))
       \<or> (z, rc) = (BOTTOM_LEFT, (0, 320, 213, 480))
       \<or> (z, rc) = (BOTTOM_CENTER, (213, 320, 426, 480))
       \<or> (z, rc) = (BOTTOM_RIGHT, (426, 320, 640, 480))"
    by (simp add: grid_zones_unfold)
  with ins show ?thesis by (elim disjE) simp_all
qed

lemma calculate_autonomous_thresholded:
  assumes "face_detected s" and "face_zone s = get_face_zone_loop (grid_zones 640 480) cx cy"
    and "dh \<le> 105" and "dv \<le> 79"
  shows "velocity_of (calculate_autonomous_commands s) =
     (0,
      (if \<bar>cx - 640 div 2\<bar> > dh then column_sign (face_zone s) * move_speed s else 0),
      (if \<bar>cy - 480 div 2\<bar> > dv then row_sign (face_zone s) * vertical_speed s else 0),
      0)"
proof (cases "face_zone s = CENTER")
  case True
  then show ?thesis by (simp add: calculate_autonomous_commands_def)
next
  case False
  from default_grid_offsets [OF assms(2) [symmetric]] assms(3,4)
  have "column_sign (face_zone s) \<noteq> 0 \<longrightarrow> \<bar>cx - 640 div 2\<bar> > dh"
    and "row_sign (face_zone s) \<noteq> 0 \<longrightarrow> \<bar>cy - 480 div 2\<bar> > dv"
    by auto
  with calculate_autonomous_signs [OF assms(1) False] show ?thesis by auto
qed

lemma set_flight_mode_performance:
  "sim_move_speed (set_flight_mode ''performance'' q) = SIM_PERF_GND_SPEED"
  "sim_vertical_speed (set_flight_mode ''performance'' q) = SIM_PERF_VZ_SPEED"
  "sim_frame_width (set_flight_mode ''performance'' q) = sim_frame_width q"
  "sim_frame_height (set_flight_mode ''performance'' q) = sim_frame_height q"
  "deadzone_horizontal (set_flight_mode ''performance'' q) = deadzone_horizontal q"
  "deadzone_vertical (set_flight_mode ''performance'' q) = deadzone_vertical q"
  by (simp_all add: set_flight_mode_def update_speeds_for_mode_def Let_def split: option.splits)

text \<open>
  Claim C6. In \<open>calculate_drone_commands\<close> the horizontal component is the ground
  speed, signed by the zone's column, only when the horizontal pixel offset of the target
  from the frame centre exceeds \<open>deadzone_horizontal\<close>, and zero otherwise; the
  vertical component is the vertical speed, signed by the zone's row, only when the
  vertical offset exceeds \<open>deadzone_vertical\<close>; neither test looks at the other axis,
  and the forward and yaw components are zero. With both offsets beyond their dead zones
  under the performance profile, TOP_RIGHT yields \<open>(0, +ground speed, -vertical
  speed, 0)\<close>. The mapper \<open>calculate_autonomous_commands\<close> of the two other variants
  has no threshold of its own; on an observation whose zone was classified from its
  centre \<open>(cx, cy)\<close> in the 640 by 480 frame it publishes the same vector as the
  thresholded rule for every pair of thresholds up to 105 and 79 pixels, among them the 80 and 60
  that \<open>elevatexy_simulation.py\<close> configures, and TOP_RIGHT under the performance
  profile yields \<open>(0, 4.5, -0.75, 0)\<close>.
\<close>

theorem perception_dead_zone_gating:
  "calculate_drone_commands q zone (face_x, face_y) =
     (0,
      (if \<bar>face_x - sim_frame_width q div 2\<bar> > deadzone_horizontal q
       then column_sign zone * sim_move_speed q else 0),
      (if \<bar>face_y - sim_frame_height q div 2\<bar> > deadzone_vertical q
       then row_sign zone * sim_vertical_speed q else 0),
      0)
   \<and> (\<bar>face_x - sim_frame_width q div 2\<bar> > deadzone_horizontal q
        \<and> \<bar>face_y - sim_frame_height q div 2\<bar> > deadzone_vertical q \<longrightarrow>
      calculate_drone_commands (set_flight_mode ''performance'' q) TOP_RIGHT (face_x, face_y)
        = (0, SIM_PERF_GND_SPEED, - SIM_PERF_VZ_SPEED, 0))
   \<and> (face_detected s \<and> face_zone s = get_face_zone_loop (grid_zones 640 480) cx cy
        \<and> dh \<le> 105 \<and> dv \<le> 79 \<longrightarrow>
      velocity_of (calculate_autonomous_commands s) =
        (0,
         (if \<bar>cx - 640 div 2\<bar> > dh then column_sign (face_zone s) * move_speed s else 0),
         (if \<bar>cy - 480 div 2\<bar> > dv then row_sign (face_zone s) * vertical_speed s else 0),
         0))
   \<and> (face_detected s \<and> face_zone s = TOP_RIGHT \<and> flight_mode s = ''performance''
        \<and> rates_match_profile s \<longrightarrow>
      velocity_of (calculate_autonomous_commands s) = (0, PERF_GND_SPEED, - PERF_VZ_SPEED, 0))"
proof -
  have 1: "calculate_drone_commands q zone (face_x, face_y) =
     (0,
      (if \<bar>face_x - sim_frame_width q div 2\<bar> > deadzone_horizontal q
       then column_sign zone * sim_move_speed q else 0),
      (if \<bar>face_y - sim_frame_height q div 2\<bar> > deadzone_vertical q
       then row_sign zone * sim_vertical_speed q else 0),
      0)"
    by (rule calculate_drone_commands_signs)
  have 2: "calculate_drone_commands (set_flight_mode ''performance'' q) TOP_RIGHT (face_x, face_y)
        = (0, SIM_PERF_GND_SPEED, - SIM_PERF_VZ_SPEED, 0)"
    if "\<bar>face_x - sim_frame_width q div 2\<bar> > deadzone_horizontal q"
      and "\<bar>face_y - sim_frame_height q div 2\<bar> > deadzone_vertical q"
    using that
    by (simp add: calculate_drone_commands_signs set_flight_mode_performance)
  have 3: "velocity_of (calculate_autonomous_commands s) =
        (0,
         (if \<bar>cx - 640 div 2\<bar> > dh then column_sign (face_zone s) * move_speed s else 0),
         (if \<bar>cy - 480 div 2\<bar> > dv then row_sign (face_zone s) * vertical_speed s else 0),
         0)"
    if "face_detected s" "face_zone s = get_face_zone_loop (grid_zones 640 480) cx cy"
      "dh \<le> 105" "dv \<le> 79"
    using that by (rule calculate_autonomous_thresholded)
  have 4: "velocity_of (calculate_autonomous_commands s) = (0, PERF_GND_SPEED, - PERF_VZ_SPEED, 0)"
    if "face_detected s" "face_zone s = TOP_RIGHT" "flight_mode s = ''performance''"
      "rates_match_profile s"
  proof -
    from that(3,4) have "move_speed s = PERF_GND_SPEED" "vertical_speed s = PERF_VZ_SPEED"
      by (simp_all add: rates_match_profile_def)
    with calculate_autonomous_signs [of s] that(1,2) show ?thesis by simp
  qed
  show ?thesis
  proof (intro conjI impI)
    show "calculate_drone_commands q zone (face_x, face_y) =
     (0,
      (if \<bar>face_x - sim_frame_width q div 2\<bar> > deadzone_horizontal q
       then column_sign zone * sim_move_speed q else 0),
      (if \<bar>face_y - sim_frame_height q div 2\<bar> > deadzone_vertical q
       then row_sign zone * sim_vertical_speed q else 0),
      0)"
      by (rule 1)
  qed (elim conjE, rule 2 3 4, assumption+)+
qed

theorem perception_dead_zone_gating_witness:
  "calculate_drone_commands (set_flight_mode ''performance'' ElevateXYSimulation_init)
      TOP_RIGHT (500, 100) = (0, 6, - 0.6, 0)
   \<and> face_zone (run_events [Press ''3'', Press ''space'', CameraFrame [(450, 50, 100, 100)]]
        (session_start armed_vehicle True True)) = TOP_RIGHT
   \<and> velocity_of (calculate_autonomous_commands
        (run_events [Press ''3'', Press ''space'', CameraFrame [(450, 50, 100, 100)]]
          (session_start armed_vehicle True True))) = (0, 4.5, - 0.75, 0)"
proof -
  let ?q = "ElevateXYSimulation_init"
  let ?s = "run_events [Press ''3'', Press ''space'', CameraFrame [(450, 50, 100, 100)]]
        (session_start armed_vehicle True True)"
  have q: "\<bar>500 - sim_frame_width ?q div 2\<bar> > deadzone_horizontal ?q"
    "\<bar>100 - sim_frame_height ?q div 2\<bar> > deadzone_vertical ?q"
    by (simp_all add: ElevateXYSimulation_init_def)
  have s: "face_detected ?s" "face_zone ?s = TOP_RIGHT" "flight_mode ?s = ''performance''"
    "rates_match_profile ?s"
    by (simp_all add: eval_defs detect_face_def calculate_autonomous_commands_def
        get_face_zone_def grid_zones_unfold rates_match_profile_def
        left_column_def right_column_def top_row_def bottom_row_def)
  note fact = perception_dead_zone_gating [of ?q TOP_RIGHT 500 100 ?s 500 100 80 60]
  from fact q have 1: "calculate_drone_commands (set_flight_mode ''performance'' ?q)
      TOP_RIGHT (500, 100) = (0, SIM_PERF_GND_SPEED, - SIM_PERF_VZ_SPEED, 0)"
    by blast
  from fact s have 2: "velocity_of (calculate_autonomous_commands ?s)
      = (0, PERF_GND_SPEED, - PERF_VZ_SPEED, 0)"
    by blast
  from 1 2 s(2) show ?thesis
    by (simp only: SIM_PERF_GND_SPEED_def SIM_PERF_VZ_SPEED_def PERF_GND_SPEED_def
        PERF_VZ_SPEED_def) simp
qed

section \<open>Session teardown\<close>

lemma step_after_cleanup:
  assumes "\<not> command_active s" and "\<not> keyboard_listener s"
  shows "sent (step e s) = sent s \<and> \<not> command_active (step e s) \<and> \<not> keyboard_listener (step e s)"
  using assms
  by (cases e) (simp_all add: command_loop_pass_def main_loop_frame_def)

lemma run_after_cleanup:
  "\<not> command_active s \<Longrightarrow> \<not> keyboard_listener s \<Longrightarrow> sent (run_events es s) = sent s"
proof (induction es arbitrary: s)
  case Nil
  then show ?case by simp
next
  case (Cons e es)
  from step_after_cleanup [OF Cons.prems, of e]
  have "sent (run_events es (step e s)) = sent (step e s)" and "sent (step e s) = sent s"
    by (simp_all add: Cons.IH)
  then show ?case by simp
qed

lemma cleanup_sends_nothing:
  "sent (cleanup s) = sent s \<and> \<not> command_active (cleanup s) \<and> \<not> keyboard_listener (cleanup s)"
  by (simp add: cleanup_def set_velocity_def Let_def split: option.splits)

text \<open>
  Claim C1, evaluated on the code. \<open>cleanup\<close> hands nothing to the link, in either
  variant, and after it no event of the session does: the command thread finds
  \<open>command_active\<close> false and ends. In the session where forward is pressed on an
  armed vehicle, the command thread sends once, and escape is pressed, the only command
  ever sent is \<open>(3, 0, 0, 0)\<close>: the zero command is stored in the shared fields but is
  never transmitted, and the thread has ended.
\<close>

theorem cleanup_never_transmits_zero:
  "sent (run_events es (cleanup s)) = sent s
   \<and> sent (tk_cleanup t) = sent t
   \<and> sent (run_events
        [Press ''w'', StreamerPass False, Press ''esc'', StreamerPass False, StreamerPass False]
        (session_start armed_vehicle False False)) = [(3, 0, 0, 0)]
   \<and> velocity_of (run_events
        [Press ''w'', StreamerPass False, Press ''esc'', StreamerPass False, StreamerPass False]
        (session_start armed_vehicle False False)) = (0, 0, 0, 0)
   \<and> \<not> streamer_alive (run_events
        [Press ''w'', StreamerPass False, Press ''esc'', StreamerPass False, StreamerPass False]
        (session_start armed_vehicle False False))"
proof -
  have 1: "sent (run_events es (cleanup s)) = sent s"
    using cleanup_sends_nothing [of s] run_after_cleanup [of "cleanup s" es] by simp
  have 2: "sent (tk_cleanup t) = sent t"
    by (simp add: tk_cleanup_def stop_movement_def set_velocity_def Let_def split: option.splits)
  have 3: "sent (run_events
        [Press ''w'', StreamerPass False, Press ''esc'', StreamerPass False, StreamerPass False]
        (session_start armed_vehicle False False)) = [(3, 0, 0, 0)]"
    "velocity_of (run_events
        [Press ''w'', StreamerPass False, Press ''esc'', StreamerPass False, StreamerPass False]
        (session_start armed_vehicle False False)) = (0, 0, 0, 0)"
    "\<not> streamer_alive (run_events
        [Press ''w'', StreamerPass False, Press ''esc'', StreamerPass False, StreamerPass False]
        (session_start armed_vehicle False False))"
    by (simp_all add: eval_defs)
  from 1 2 3 show ?thesis by simp
qed

end
